theory Spec2Isabelle
  imports Main "HOL-Library.AList" "HOL-Library.Multiset"
begin

text \<open>
  The room lifecycle controller and the deck subsystem of the poker engine, as functions on
  an explicit store. Every function that talks to the store takes the store and returns it
  next to its result; an error return of Go is the \<open>Inl\<close> of a sum. Calls to the console
  logger (\<^verbatim>\<open>utils.Logger\<close>) are left out throughout: they print a line and decide
  nothing.
\<close>

section \<open>Game phases (package models)\<close>

text \<open>
  \<^verbatim>\<open>type GamePhase string\<close>: a phase is any string; seven of them are named constants.
\<close>

type_synonym GamePhase = string

definition GamePhaseWaiting :: GamePhase where "GamePhaseWaiting = ''waiting''"
definition GamePhasePreFlop :: GamePhase where "GamePhasePreFlop = ''pre_flop''"
definition GamePhaseFlop :: GamePhase where "GamePhaseFlop = ''flop''"
definition GamePhaseTurn :: GamePhase where "GamePhaseTurn = ''turn''"
definition GamePhaseRiver :: GamePhase where "GamePhaseRiver = ''river''"
definition GamePhaseShowdown :: GamePhase where "GamePhaseShowdown = ''showdown''"
definition GamePhaseFinished :: GamePhase where "GamePhaseFinished = ''finished''"

text \<open>
  The \<^verbatim>\<open>Game\<close> struct. Only the fields that the lifecycle code reads are kept: the
  identifiers and the phase. The numeric, card and time fields that
  \<^verbatim>\<open>NewGameFromRedis\<close> parses are read by none of the functions below.
\<close>

record Game =
  GameID :: string
  RoomID :: string
  ClubID :: string
  Phase :: GamePhase

text \<open>Indexing a Go \<^verbatim>\<open>map[string]string\<close>: a missing key reads as the empty string.\<close>

definition field :: "(string \<times> string) list \<Rightarrow> string \<Rightarrow> string" where
  "field data k = (case map_of data k of None \<Rightarrow> [] | Some v \<Rightarrow> v)"

definition NewGameFromRedis :: "(string \<times> string) list \<Rightarrow> Game" where
  "NewGameFromRedis data =
     \<lparr>GameID = field data ''game_id'', RoomID = [], ClubID = [], Phase = field data ''phase''\<rparr>"

definition IsActive :: "Game \<Rightarrow> bool" where
  "IsActive g = (Phase g \<noteq> GamePhaseWaiting \<and> Phase g \<noteq> GamePhaseFinished)"

definition IsWaiting :: "Game \<Rightarrow> bool" where
  "IsWaiting g = (Phase g = GamePhaseWaiting)"

text \<open>The map literal of \<^verbatim>\<open>CanTransitionTo\<close>, in the order it is written.\<close>

definition validTransitions :: "(GamePhase \<times> GamePhase list) list" where
  "validTransitions =
     [(GamePhaseWaiting, [GamePhasePreFlop]),
      (GamePhasePreFlop, [GamePhaseFlop, GamePhaseShowdown, GamePhaseFinished]),
      (GamePhaseFlop, [GamePhaseTurn, GamePhaseShowdown, GamePhaseFinished]),
      (GamePhaseTurn, [GamePhaseRiver, GamePhaseShowdown, GamePhaseFinished]),
      (GamePhaseRiver, [GamePhaseShowdown, GamePhaseFinished]),
      (GamePhaseShowdown, [GamePhaseFinished, GamePhasePreFlop]),
      (GamePhaseFinished, [GamePhaseWaiting, GamePhasePreFlop])]"

text \<open>The \<^verbatim>\<open>for _, allowed := range allowedPhases\<close> loop: the first match returns true.\<close>

fun allowed_loop :: "GamePhase list \<Rightarrow> GamePhase \<Rightarrow> bool" where
  "allowed_loop [] nextPhase = False"
| "allowed_loop (allowed # rest) nextPhase =
     (if allowed = nextPhase then True else allowed_loop rest nextPhase)"

definition CanTransitionTo :: "Game \<Rightarrow> GamePhase \<Rightarrow> bool" where
  "CanTransitionTo g nextPhase =
     (case map_of validTransitions (Phase g) of
        None \<Rightarrow> False
      | Some allowedPhases \<Rightarrow> allowed_loop allowedPhases nextPhase)"

section \<open>Cards and the deck (DeckManager)\<close>

text \<open>The suit and rank constants, and the two slices \<^verbatim>\<open>CreateDeck\<close> builds from them.\<close>

definition Hearts :: string where "Hearts = ''H''"
definition Diamonds :: string where "Diamonds = ''D''"
definition Clubs :: string where "Clubs = ''C''"
definition Spades :: string where "Spades = ''S''"

definition Ace :: string where "Ace = ''A''"
definition Two :: string where "Two = ''2''"
definition Three :: string where "Three = ''3''"
definition Four :: string where "Four = ''4''"
definition Five :: string where "Five = ''5''"
definition Six :: string where "Six = ''6''"
definition Seven :: string where "Seven = ''7''"
definition Eight :: string where "Eight = ''8''"
definition Nine :: string where "Nine = ''9''"
definition Ten :: string where "Ten = ''T''"
definition Jack :: string where "Jack = ''J''"
definition Queen :: string where "Queen = ''Q''"
definition King :: string where "King = ''K''"

definition suits :: "string list" where
  "suits = [Hearts, Diamonds, Clubs, Spades]"

definition ranks :: "string list" where
  "ranks = [Ace, Two, Three, Four, Five, Six, Seven, Eight, Nine, Ten, Jack, Queen, King]"

text \<open>
  \<^verbatim>\<open>CreateDeck\<close>: the outer loop runs over the suits, the inner one over the ranks, and
  each card is \<^verbatim>\<open>rank + suit\<close>, appended to the deck.
\<close>

definition CreateDeck :: "string list" where
  "CreateDeck = concat (map (\<lambda>suit. map (\<lambda>rank. rank @ suit) ranks) suits)"

text \<open>
  Modelled from the spec: the random source \<^verbatim>\<open>*rand.Rand\<close> of the Go library, which
  the spec describes as choosing an index in \<open>[0, i]\<close>. A generator state is the sequence
  of raw draws still to come; \<^verbatim>\<open>Intn(n)\<close> for a positive \<open>n\<close> consumes one draw and
  reduces it into \<open>[0, n)\<close>. A generator that has run dry answers \<open>0\<close>.
\<close>

type_synonym rng = "nat list"

definition Intn :: "rng \<Rightarrow> nat \<Rightarrow> nat \<times> rng" where
  "Intn g n = (case g of [] \<Rightarrow> (0, []) | x # rest \<Rightarrow> (x mod n, rest))"

text \<open>
  \<^verbatim>\<open>ShuffleDeck\<close> on values. The local slice \<^verbatim>\<open>shuffled\<close> is a copy of the argument; the
  loop \<^verbatim>\<open>for i := len(shuffled) - 1; i > 0; i--\<close> swaps positions \<open>i\<close> and
  \<open>j = Intn(i + 1)\<close>. The first argument of the loop is the current \<open>i\<close>.
\<close>

fun shuffle_loop :: "nat \<Rightarrow> rng \<Rightarrow> string list \<Rightarrow> string list \<times> rng" where
  "shuffle_loop 0 g shuffled = (shuffled, g)"
| "shuffle_loop (Suc k) g shuffled =
     (let i = Suc k;
          (j, g') = Intn g (i + 1)
      in shuffle_loop k g' (shuffled[i := shuffled ! j, j := shuffled ! i]))"

definition ShuffleDeck :: "rng \<Rightarrow> string list \<Rightarrow> string list \<times> rng" where
  "ShuffleDeck g deck = (let shuffled = deck in shuffle_loop (length shuffled - 1) g shuffled)"

definition CreateAndShuffleDeck :: "rng \<Rightarrow> string list \<times> rng" where
  "CreateAndShuffleDeck g = (let deck = CreateDeck in ShuffleDeck g deck)"

text \<open>
  \<^verbatim>\<open>ShuffleDeck\<close> on memory, where a slice is a reference to a backing array and the swap
  is an assignment into it. The heap is the list of the arrays allocated so far, a slice is
  the index of its array. \<^verbatim>\<open>make\<close> allocates a zeroed array at the next free index,
  \<^verbatim>\<open>copy\<close> fills it from the argument, and the loop assigns into the new array only.
\<close>

type_synonym heap = "string list list"

definition make_slice :: "heap \<Rightarrow> nat \<Rightarrow> nat \<times> heap" where
  "make_slice h n = (length h, h @ [replicate n []])"

definition copy_slice :: "heap \<Rightarrow> nat \<Rightarrow> nat \<Rightarrow> heap" where
  "copy_slice h dst src =
     h[dst := take (min (length (h ! dst)) (length (h ! src))) (h ! src)
              @ drop (min (length (h ! dst)) (length (h ! src))) (h ! dst)]"

fun shuffle_loop_heap :: "nat \<Rightarrow> rng \<Rightarrow> nat \<Rightarrow> heap \<Rightarrow> heap \<times> rng" where
  "shuffle_loop_heap 0 g shuffled h = (h, g)"
| "shuffle_loop_heap (Suc k) g shuffled h =
     (let i = Suc k;
          (j, g') = Intn g (i + 1);
          old_i = h ! shuffled ! i;
          old_j = h ! shuffled ! j;
          h1 = h[shuffled := (h ! shuffled)[i := old_j]];
          h2 = h1[shuffled := (h1 ! shuffled)[j := old_i]]
      in shuffle_loop_heap k g' shuffled h2)"

definition ShuffleDeck_heap :: "rng \<Rightarrow> nat \<Rightarrow> heap \<Rightarrow> nat \<times> heap \<times> rng" where
  "ShuffleDeck_heap g deck h =
     (let (shuffled, h1) = make_slice h (length (h ! deck));
          h2 = copy_slice h1 shuffled deck;
          (h3, g') = shuffle_loop_heap (length (h2 ! shuffled) - 1) g shuffled h2
      in (shuffled, h3, g'))"

section \<open>The key/value store (RedisClient)\<close>

text \<open>The keys of package storage: \<^verbatim>\<open>fmt.Sprintf\<close> over the club, room and user ids.\<close>

definition RoomInfo :: "string \<Rightarrow> string \<Rightarrow> string" where
  "RoomInfo clubID roomID = ''club:'' @ clubID @ '':room:'' @ roomID @ '':info''"

definition GameState :: "string \<Rightarrow> string \<Rightarrow> string" where
  "GameState clubID roomID = ''club:'' @ clubID @ '':room:'' @ roomID @ '':game''"

definition RoomPlayers :: "string \<Rightarrow> string \<Rightarrow> string" where
  "RoomPlayers clubID roomID = ''club:'' @ clubID @ '':room:'' @ roomID @ '':players''"

definition RoomActions :: "string \<Rightarrow> string \<Rightarrow> string" where
  "RoomActions clubID roomID = ''club:'' @ clubID @ '':room:'' @ roomID @ '':actions''"

definition RoomDeck :: "string \<Rightarrow> string \<Rightarrow> string" where
  "RoomDeck clubID roomID = ''club:'' @ clubID @ '':room:'' @ roomID @ '':deck''"

definition PlayerInfo :: "string \<Rightarrow> string \<Rightarrow> string \<Rightarrow> string" where
  "PlayerInfo clubID roomID userID =
     ''club:'' @ clubID @ '':room:'' @ roomID @ '':player:'' @ userID"

text \<open>
  The errors the modelled functions return. The Go code wraps the store's errors in
  messages (\<^verbatim>\<open>fmt.Errorf("...: %w", err)\<close>); the message texts are not modelled, a
  wrapped store error stays \<open>StoreError\<close>. \<open>RedisNil\<close> is the reply \<^verbatim>\<open>redis: nil\<close>.
  \<open>MakeSlicePanic\<close> is the run-time panic of \<^verbatim>\<open>make\<close> on a capacity that is negative or
  beyond the allocator's limit, \<open>OutOfMemory\<close> the fatal error of an allocation the machine
  cannot serve.
\<close>

datatype error =
    StoreError
  | RedisNil
  | RoomDoesNotExist
  | NoPlayers
  | DeckExhausted
  | MakeSlicePanic
  | OutOfMemory

text \<open>An event of the action log: \<^verbatim>\<open>ActionData\<close>, with the data map as a list of pairs.\<close>

datatype jvalue = JString string | JInt int

record ActionData =
  Action :: string
  Timestamp :: int
  Source :: string
  Data :: "(string \<times> jvalue) list"

text \<open>
  Modelled from the spec: the store itself and its client library (go-redis), which are
  not part of the repository; \<^verbatim>\<open>RedisClient\<close> only forwards to them. The spec assumes
  atomic single commands and hash, set and list primitives; integers are stored as decimal
  text and booleans as text.
  The store holds, per key, a hash (field/value pairs), a set (its members in the order
  \<^verbatim>\<open>SMembers\<close> lists them), a list of strings, and the list of the events pushed to an
  action log (each event kept as the record whose JSON text the code pushes).
  \<open>faults\<close> is the availability of the store: one entry per command still to come,
  \<open>True\<close> when the reply to that command is an error. A command that fails changes
  nothing in the store; once \<open>faults\<close> is used up every command succeeds. A command sent
  on its own is one round trip.
\<close>

record store =
  hash_at :: "string \<Rightarrow> (string \<times> string) list"
  set_at :: "string \<Rightarrow> string list"
  list_at :: "string \<Rightarrow> string list"
  log_at :: "string \<Rightarrow> ActionData list"
  faults :: "bool list"

definition failing :: "store \<Rightarrow> bool" where
  "failing s = (case faults s of [] \<Rightarrow> False | f # rest \<Rightarrow> f)"

definition advance :: "store \<Rightarrow> store" where
  "advance s = s\<lparr>faults := tl (faults s)\<rparr>"

definition Exists_key :: "string \<Rightarrow> store \<Rightarrow> (error + bool) \<times> store" where
  "Exists_key key s =
     (if failing s then (Inl StoreError, advance s)
      else (Inr (hash_at s key \<noteq> [] \<or> set_at s key \<noteq> [] \<or> list_at s key \<noteq> []
                 \<or> log_at s key \<noteq> []), advance s))"

definition Del :: "string list \<Rightarrow> store \<Rightarrow> (error + unit) \<times> store" where
  "Del keys s =
     (if failing s then (Inl StoreError, advance s)
      else (Inr (),
            (advance s)\<lparr>hash_at := (\<lambda>k. if k \<in> set keys then [] else hash_at s k),
                        set_at := (\<lambda>k. if k \<in> set keys then [] else set_at s k),
                        list_at := (\<lambda>k. if k \<in> set keys then [] else list_at s k),
                        log_at := (\<lambda>k. if k \<in> set keys then [] else log_at s k)\<rparr>))"

definition HGetAll :: "string \<Rightarrow> store \<Rightarrow> (error + (string \<times> string) list) \<times> store" where
  "HGetAll key s =
     (if failing s then (Inl StoreError, advance s) else (Inr (hash_at s key), advance s))"

definition hset :: "string \<Rightarrow> string \<Rightarrow> string
    \<Rightarrow> (string \<Rightarrow> (string \<times> string) list) \<Rightarrow> (string \<Rightarrow> (string \<times> string) list)" where
  "hset key fld v h = h(key := AList.update fld v (h key))"

definition HSet :: "string \<Rightarrow> string \<Rightarrow> string \<Rightarrow> store \<Rightarrow> (error + unit) \<times> store" where
  "HSet key fld v s =
     (if failing s then (Inl StoreError, advance s)
      else (Inr (), (advance s)\<lparr>hash_at := hset key fld v (hash_at s)\<rparr>))"

text \<open>\<^verbatim>\<open>HMSet\<close> writes the fields of a Go map (its keys are distinct) in one command.\<close>

definition HMSet :: "string \<Rightarrow> (string \<times> string) list \<Rightarrow> store \<Rightarrow> (error + unit) \<times> store" where
  "HMSet key values s =
     (if failing s then (Inl StoreError, advance s)
      else (Inr (),
            (advance s)\<lparr>hash_at := fold (\<lambda>(fld, v). hset key fld v) values (hash_at s)\<rparr>))"

definition SMembers :: "string \<Rightarrow> store \<Rightarrow> (error + string list) \<times> store" where
  "SMembers key s =
     (if failing s then (Inl StoreError, advance s) else (Inr (set_at s key), advance s))"

definition SCard :: "string \<Rightarrow> store \<Rightarrow> (error + int) \<times> store" where
  "SCard key s =
     (if failing s then (Inl StoreError, advance s)
      else (Inr (int (length (set_at s key))), advance s))"

text \<open>\<^verbatim>\<open>RPUSH\<close> with no value is an error of the command.\<close>

definition RPush :: "string \<Rightarrow> string list \<Rightarrow> store \<Rightarrow> (error + unit) \<times> store" where
  "RPush key values s =
     (if failing s \<or> values = [] then (Inl StoreError, advance s)
      else (Inr (), (advance s)\<lparr>list_at := (list_at s)(key := list_at s key @ values)\<rparr>))"

definition RPush_event :: "string \<Rightarrow> ActionData \<Rightarrow> store \<Rightarrow> (error + unit) \<times> store" where
  "RPush_event key ev s =
     (if failing s then (Inl StoreError, advance s)
      else (Inr (), (advance s)\<lparr>log_at := (log_at s)(key := log_at s key @ [ev])\<rparr>))"

text \<open>\<^verbatim>\<open>RPOP\<close> removes and returns the last element; on an empty list the reply is nil.\<close>

definition RPop :: "string \<Rightarrow> store \<Rightarrow> (error + string) \<times> store" where
  "RPop key s =
     (if failing s then (Inl StoreError, advance s)
      else (case list_at s key of
              [] \<Rightarrow> (Inl RedisNil, advance s)
            | x # xs \<Rightarrow>
                (Inr (last (x # xs)),
                 (advance s)\<lparr>list_at := (list_at s)(key := butlast (x # xs))\<rparr>)))"

definition LLen :: "string \<Rightarrow> store \<Rightarrow> (error + int) \<times> store" where
  "LLen key s =
     (if failing s then (Inl StoreError, advance s)
      else (Inr (int (length (list_at s key))), advance s))"

text \<open>
  The pipeline of the client library. \<^verbatim>\<open>RedisClient.Pipeline\<close> returns the client's plain
  pipeline, not the transactional one (that is \<^verbatim>\<open>RedisClient.TxPipeline\<close>, which no
  function uses). A pipeline queues \<^verbatim>\<open>HSet\<close> commands (key, field, value); \<^verbatim>\<open>Exec\<close> sends
  them together, the store executes each command on its own, in the order queued, and
  answers each on its own. A command whose reply is an error has not taken effect, the
  others have; \<^verbatim>\<open>Exec\<close> returns the first error among the replies, or nil. The second
  argument of the loop is the first error seen so far.
\<close>

type_synonym command = "string \<times> string \<times> string"

fun exec_loop :: "command list \<Rightarrow> error option \<Rightarrow> store \<Rightarrow> error option \<times> store" where
  "exec_loop [] firstErr s = (firstErr, s)"
| "exec_loop ((key, fld, v) # rest) firstErr s =
     (case HSet key fld v s of
        (Inl err, s1) \<Rightarrow> exec_loop rest (if firstErr = None then Some err else firstErr) s1
      | (Inr u, s1) \<Rightarrow> exec_loop rest firstErr s1)"

definition Exec :: "command list \<Rightarrow> store \<Rightarrow> (error + unit) \<times> store" where
  "Exec cmds s =
     (case exec_loop cmds None s of
        (None, s1) \<Rightarrow> (Inr (), s1)
      | (Some err, s1) \<Rightarrow> (Inl err, s1))"

section \<open>GameStateService\<close>

definition GetGameState :: "string \<Rightarrow> string \<Rightarrow> store \<Rightarrow> (error + Game option) \<times> store" where
  "GetGameState clubID roomID s =
     (case HGetAll (GameState clubID roomID) s of
        (Inl err, s1) \<Rightarrow> (Inl err, s1)
      | (Inr data, s1) \<Rightarrow>
          if length data = 0 then (Inr None, s1)
          else (Inr (Some ((NewGameFromRedis data)\<lparr>ClubID := clubID, RoomID := roomID\<rparr>)), s1))"

definition GetPlayersCount :: "string \<Rightarrow> string \<Rightarrow> store \<Rightarrow> (error + int) \<times> store" where
  "GetPlayersCount clubID roomID s = SCard (RoomPlayers clubID roomID) s"

definition GetPlayerIDs :: "string \<Rightarrow> string \<Rightarrow> store \<Rightarrow> (error + string list) \<times> store" where
  "GetPlayerIDs clubID roomID s = SMembers (RoomPlayers clubID roomID) s"

definition IsGameActive :: "string \<Rightarrow> string \<Rightarrow> store \<Rightarrow> (error + bool) \<times> store" where
  "IsGameActive clubID roomID s =
     (case GetGameState clubID roomID s of
        (Inl err, s1) \<Rightarrow> (Inl err, s1)
      | (Inr None, s1) \<Rightarrow> (Inr False, s1)
      | (Inr (Some game), s1) \<Rightarrow> (Inr (IsActive game), s1))"

definition RoomExists :: "string \<Rightarrow> string \<Rightarrow> store \<Rightarrow> (error + bool) \<times> store" where
  "RoomExists clubID roomID s = Exists_key (RoomInfo clubID roomID) s"

section \<open>ActionLogger\<close>

text \<open>
  The readings of the wall clock that the code takes: \<^verbatim>\<open>time.Now()\<close> formatted as
  \<^verbatim>\<open>20060102150405\<close>, as RFC 3339 in UTC, and as Unix seconds.
\<close>

record clock =
  stamp :: string
  iso8601 :: string
  unix :: int

definition LogAction :: "clock \<Rightarrow> string \<Rightarrow> string \<Rightarrow> string \<Rightarrow> (string \<times> jvalue) list
    \<Rightarrow> store \<Rightarrow> (error + unit) \<times> store" where
  "LogAction now clubID roomID action data s =
     RPush_event (RoomActions clubID roomID)
       \<lparr>Action = action, Timestamp = unix now, Source = ''game_engine'', Data = data\<rparr> s"

definition LogGameStarted :: "clock \<Rightarrow> string \<Rightarrow> string \<Rightarrow> string \<Rightarrow> int
    \<Rightarrow> store \<Rightarrow> (error + unit) \<times> store" where
  "LogGameStarted now clubID roomID gameID playersCount s =
     LogAction now clubID roomID ''game_started''
       [(''game_id'', JString gameID), (''phase'', JString ''pre_flop''),
        (''players_count'', JInt playersCount)] s"

definition LogGameStopped :: "clock \<Rightarrow> string \<Rightarrow> string \<Rightarrow> string \<Rightarrow> string
    \<Rightarrow> store \<Rightarrow> (error + unit) \<times> store" where
  "LogGameStopped now clubID roomID previousPhase reason s =
     LogAction now clubID roomID ''game_stopped''
       [(''previous_phase'', JString previousPhase), (''reason'', JString reason)] s"

section \<open>RoomMonitor\<close>

record EngineConfig =
  MinPlayersToStart :: int
  MaxPlayersPerRoom :: int

text \<open>
  \<^verbatim>\<open>handleGameStart\<close> of the monitor: six \<^verbatim>\<open>HSet\<close> commands are queued on one pipeline
  and sent with one \<^verbatim>\<open>Exec\<close>. On an error of \<^verbatim>\<open>Exec\<close> the function returns it; otherwise
  it logs the start (the result of the log call is dropped) and returns nil.
  The integer \<open>0\<close> is written as the text \<open>0\<close>.
\<close>

definition handleGameStart :: "clock \<Rightarrow> string \<Rightarrow> string \<Rightarrow> int
    \<Rightarrow> store \<Rightarrow> (error + unit) \<times> store" where
  "handleGameStart now clubID roomID playersCount s =
     (let gameID = stamp now @ ''_'' @ clubID @ ''_'' @ roomID;
          startedAt = iso8601 now;
          roomInfoKey = RoomInfo clubID roomID;
          gameStateKey = GameState clubID roomID;
          pipe = [(roomInfoKey, ''status'', ''gaming''),
                  (gameStateKey, ''phase'', ''pre_flop''),
                  (gameStateKey, ''game_id'', gameID),
                  (gameStateKey, ''started_at'', startedAt),
                  (gameStateKey, ''pot'', ''0''),
                  (gameStateKey, ''current_bet'', ''0'')]
      in case Exec pipe s of
           (Inl err, s1) \<Rightarrow> (Inl err, s1)
         | (Inr u, s1) \<Rightarrow>
             (Inr (), snd (LogGameStarted now clubID roomID gameID playersCount s1)))"

text \<open>\<^verbatim>\<open>handleGameStop\<close> of the monitor: one pipeline of seven commands, then the log.\<close>

definition handleGameStop :: "clock \<Rightarrow> string \<Rightarrow> string \<Rightarrow> string \<Rightarrow> string
    \<Rightarrow> store \<Rightarrow> (error + unit) \<times> store" where
  "handleGameStop now clubID roomID previousPhase reason s =
     (let roomInfoKey = RoomInfo clubID roomID;
          gameStateKey = GameState clubID roomID;
          pipe = [(roomInfoKey, ''status'', ''waiting''),
                  (gameStateKey, ''phase'', ''waiting''),
                  (gameStateKey, ''game_id'', []),
                  (gameStateKey, ''started_at'', []),
                  (gameStateKey, ''pot'', ''0''),
                  (gameStateKey, ''current_bet'', ''0''),
                  (gameStateKey, ''community_cards'', ''[]'')]
      in case Exec pipe s of
           (Inl err, s1) \<Rightarrow> (Inl err, s1)
         | (Inr u, s1) \<Rightarrow>
             (Inr (), snd (LogGameStopped now clubID roomID previousPhase reason s1)))"

text \<open>
  \<^verbatim>\<open>checkRoom\<close> returns nothing in Go. The model returns, next to the store, which way
  the function left: \<open>None\<close> for the early returns (a read failed, or there is no game
  record), otherwise the transition it invoked, with the arguments of the call. The error a
  transition returns is only logged.
\<close>

datatype transition =
    StartGame int
  | StopGame string string
  | NoTransition

definition checkRoom :: "EngineConfig \<Rightarrow> clock \<Rightarrow> string \<Rightarrow> string
    \<Rightarrow> store \<Rightarrow> transition option \<times> store" where
  "checkRoom config now clubID roomID s =
     (case GetPlayersCount clubID roomID s of
        (Inl err, s1) \<Rightarrow> (None, s1)
      | (Inr playersCount, s1) \<Rightarrow>
          (case GetGameState clubID roomID s1 of
             (Inl err, s2) \<Rightarrow> (None, s2)
           | (Inr None, s2) \<Rightarrow> (None, s2)
           | (Inr (Some game), s2) \<Rightarrow>
               (let currentPhase = Phase game in
                if playersCount \<ge> MinPlayersToStart config \<and> currentPhase = ''waiting''
                then (Some (StartGame playersCount),
                      snd (handleGameStart now clubID roomID playersCount s2))
                else if playersCount < MinPlayersToStart config \<and> currentPhase \<noteq> ''waiting''
                then (Some (StopGame currentPhase ''insufficient_players''),
                      snd (handleGameStop now clubID roomID currentPhase
                             ''insufficient_players'' s2))
                else (Some NoTransition, s2))))"

section \<open>GameStopHandler\<close>

text \<open>
  \<^verbatim>\<open>resetPlayerState\<close>: one \<^verbatim>\<open>HMSet\<close> of seven fields. The client writes the integer
  \<open>0\<close> and the boolean \<^verbatim>\<open>false\<close> as the text \<open>0\<close>.
\<close>

definition resetPlayerState :: "string \<Rightarrow> string \<Rightarrow> string \<Rightarrow> store \<Rightarrow> (error + unit) \<times> store" where
  "resetPlayerState clubID roomID userID s =
     (let playerKey = PlayerInfo clubID roomID userID;
          updates = [(''status'', ''waiting''),
                     (''bet'', ''0''),
                     (''cards'', ''[]''),
                     (''last_action'', []),
                     (''is_dealer'', ''0''),
                     (''is_small_blind'', ''0''),
                     (''is_big_blind'', ''0'')]
      in HMSet playerKey updates s)"

text \<open>The loop over the player ids: an error of one reset is logged and the loop goes on.\<close>

fun reset_loop :: "string \<Rightarrow> string \<Rightarrow> string list \<Rightarrow> store \<Rightarrow> store" where
  "reset_loop clubID roomID [] s = s"
| "reset_loop clubID roomID (userID # rest) s =
     reset_loop clubID roomID rest (snd (resetPlayerState clubID roomID userID s))"

definition Handle :: "clock \<Rightarrow> string \<Rightarrow> string \<Rightarrow> string \<Rightarrow> string
    \<Rightarrow> store \<Rightarrow> (error + unit) \<times> store" where
  "Handle now clubID roomID previousPhase reason s =
     (case RoomExists clubID roomID s of
        (Inl err, s1) \<Rightarrow> (Inl err, s1)
      | (Inr exists, s1) \<Rightarrow>
          if \<not> exists then (Inl RoomDoesNotExist, s1)
          else
            (case IsGameActive clubID roomID s1 of
               (Inl err, s2) \<Rightarrow> (Inl err, s2)
             | (Inr isActive, s2) \<Rightarrow>
                 if \<not> isActive then (Inr (), s2)
                 else
                   (let roomInfoKey = RoomInfo clubID roomID;
                        gameStateKey = GameState clubID roomID;
                        pipe = [(roomInfoKey, ''status'', ''waiting''),
                                (gameStateKey, ''phase'', ''waiting''),
                                (gameStateKey, ''game_id'', []),
                                (gameStateKey, ''started_at'', []),
                                (gameStateKey, ''pot'', ''0''),
                                (gameStateKey, ''current_bet'', ''0''),
                                (gameStateKey, ''current_player_position'', []),
                                (gameStateKey, ''community_cards'', ''[]'')]
                    in case Exec pipe s2 of
                         (Inl err, s3) \<Rightarrow> (Inl err, s3)
                       | (Inr u, s3) \<Rightarrow>
                           (let s5 = (case GetPlayerIDs clubID roomID s3 of
                                        (Inl err, s4) \<Rightarrow> s4
                                      | (Inr playerIDs, s4) \<Rightarrow>
                                          reset_loop clubID roomID playerIDs s4)
                            in (Inr (),
                                snd (LogGameStopped now clubID roomID previousPhase
                                       reason s5))))))"

section \<open>Drawing and dealing (DeckManager, CardDealer)\<close>

definition SaveDeckToRedis :: "string \<Rightarrow> string \<Rightarrow> string list \<Rightarrow> store \<Rightarrow> (error + unit) \<times> store" where
  "SaveDeckToRedis clubID roomID deck s =
     (let deckKey = RoomDeck clubID roomID in
      case Del [deckKey] s of
        (Inl err, s1) \<Rightarrow> (Inl err, s1)
      | (Inr u, s1) \<Rightarrow>
          (case RPush deckKey deck s1 of
             (Inl err, s2) \<Rightarrow> (Inl err, s2)
           | (Inr u, s2) \<Rightarrow> (Inr (), s2)))"

text \<open>
  \<^verbatim>\<open>DrawCard\<close>: the nil reply of \<^verbatim>\<open>RPOP\<close> is turned into the empty string and no error;
  any other error is returned.
\<close>

definition DrawCard :: "string \<Rightarrow> string \<Rightarrow> store \<Rightarrow> (error + string) \<times> store" where
  "DrawCard clubID roomID s =
     (let deckKey = RoomDeck clubID roomID in
      case RPop deckKey s of
        (Inl err, s1) \<Rightarrow> if err = RedisNil then (Inr [], s1) else (Inl err, s1)
      | (Inr drawn, s1) \<Rightarrow> (Inr drawn, s1))"

text \<open>
  The loop of \<^verbatim>\<open>DrawCards\<close>, \<^verbatim>\<open>for i := 0; i < count; i++\<close>: the first argument is the
  number of iterations left, \<open>cards\<close> the slice built so far. In \<open>DrawCards\<close> the
  parameter \<^verbatim>\<open>count\<close> is written \<open>n\<close>.
\<close>

fun draw_loop :: "nat \<Rightarrow> string \<Rightarrow> string \<Rightarrow> string list \<Rightarrow> store
    \<Rightarrow> (error + string list) \<times> store" where
  "draw_loop 0 clubID roomID cards s = (Inr cards, s)"
| "draw_loop (Suc left) clubID roomID cards s =
     (case DrawCard clubID roomID s of
        (Inl err, s1) \<Rightarrow> (Inl err, s1)
      | (Inr drawn, s1) \<Rightarrow>
          if drawn = [] then (Inr cards, s1)
          else draw_loop left clubID roomID (cards @ [drawn]) s1)"

text \<open>
  \<^verbatim>\<open>DrawCards\<close> begins with \<^verbatim>\<open>cards := make([]string, 0, count)\<close>. The Go runtime is not
  part of the repository; on a 64-bit platform a string takes 16 bytes in a slice and the
  allocator serves at most \<open>2 ^ 48\<close> bytes. \<^verbatim>\<open>make\<close> panics when the capacity is negative
  or that many strings exceed the allocator's limit, and the process dies with a fatal error
  when the machine cannot provide the memory. \<open>avail\<close> is the number of bytes the runtime
  can still obtain. This one allocation is modelled because its size is the caller's
  \<^verbatim>\<open>count\<close>; the loop appends within the capacity and allocates no further slice.
\<close>

definition maxAlloc :: int where
  "maxAlloc = 2 ^ 48"

definition stringSize :: int where
  "stringSize = 16"

definition DrawCards :: "int \<Rightarrow> string \<Rightarrow> string \<Rightarrow> int \<Rightarrow> store
    \<Rightarrow> (error + string list) \<times> store" where
  "DrawCards avail clubID roomID n s =
     (if n < 0 \<or> maxAlloc < stringSize * n then (Inl MakeSlicePanic, s)
      else if avail < stringSize * n then (Inl OutOfMemory, s)
      else draw_loop (nat n) clubID roomID [] s)"

definition GetDeckSize :: "string \<Rightarrow> string \<Rightarrow> store \<Rightarrow> (error + int) \<times> store" where
  "GetDeckSize clubID roomID s = LLen (RoomDeck clubID roomID) s"

text \<open>
  \<^verbatim>\<open>json.Marshal\<close> of a slice of card codes. The codes are made of letters and digits, so
  the encoder's escapes never apply; a code is written between two double quotes.
\<close>

fun json_items :: "string list \<Rightarrow> string" where
  "json_items [] = []"
| "json_items [c] = CHR 0x22 # c @ [CHR 0x22]"
| "json_items (c # cs) = CHR 0x22 # c @ [CHR 0x22] @ '','' @ json_items cs"

definition json_cards :: "string list \<Rightarrow> string" where
  "json_cards cards = ''['' @ json_items cards @ '']''"

definition savePlayerCards :: "string \<Rightarrow> string \<Rightarrow> string \<Rightarrow> string list
    \<Rightarrow> store \<Rightarrow> (error + unit) \<times> store" where
  "savePlayerCards clubID roomID userID cards s =
     (let playerKey = PlayerInfo clubID roomID userID;
          cardsJSON = json_cards cards
      in HSet playerKey ''cards'' cardsJSON s)"

text \<open>
  The loop of \<^verbatim>\<open>DealCardsToPlayers\<close> over the player ids, two cards each. \<open>avail\<close> is
  passed on to \<open>DrawCards\<close>.
\<close>

fun deal_loop :: "int \<Rightarrow> string \<Rightarrow> string \<Rightarrow> string list \<Rightarrow> store
    \<Rightarrow> (error + unit) \<times> store" where
  "deal_loop avail clubID roomID [] s = (Inr (), s)"
| "deal_loop avail clubID roomID (userID # rest) s =
     (let cardsPerPlayer = 2 in
      case DrawCards avail clubID roomID cardsPerPlayer s of
        (Inl err, s1) \<Rightarrow> (Inl err, s1)
      | (Inr cards, s1) \<Rightarrow>
          if int (length cards) \<noteq> cardsPerPlayer then (Inl DeckExhausted, s1)
          else
            (case savePlayerCards clubID roomID userID cards s1 of
               (Inl err, s2) \<Rightarrow> (Inl err, s2)
             | (Inr u, s2) \<Rightarrow> deal_loop avail clubID roomID rest s2))"

definition DealCardsToPlayers :: "int \<Rightarrow> string \<Rightarrow> string \<Rightarrow> rng \<Rightarrow> store
    \<Rightarrow> (error + unit) \<times> rng \<times> store" where
  "DealCardsToPlayers avail clubID roomID g s =
     (case GetPlayerIDs clubID roomID s of
        (Inl err, s1) \<Rightarrow> (Inl err, g, s1)
      | (Inr playerIDs, s1) \<Rightarrow>
          if length playerIDs = 0 then (Inl NoPlayers, g, s1)
          else
            (let (deck, g') = CreateAndShuffleDeck g in
             case SaveDeckToRedis clubID roomID deck s1 of
               (Inl err, s2) \<Rightarrow> (Inl err, g', s2)
             | (Inr u, s2) \<Rightarrow>
                 (case deal_loop avail clubID roomID playerIDs s2 of
                    (Inl err, s3) \<Rightarrow> (Inl err, g', s3)
                  | (Inr u, s3) \<Rightarrow> (Inr (), g', snd (GetDeckSize clubID roomID s3)))))"

section \<open>Scenarios\<close>

text \<open>
  Concrete stores for club \<open>1\<close>, room \<open>3\<close>, with the default configuration (two players
  to start): a store with no key at all; scenario A of the spec (two players seated, the
  game waiting); scenario B (phase flop, one player left, who still holds a bet and two
  cards); a finished hand with two players still seated; a room whose deck holds two cards;
  and a room with three seated players and no deck yet.
\<close>

definition config0 :: EngineConfig where
  "config0 = \<lparr>MinPlayersToStart = 2, MaxPlayersPerRoom = 9\<rparr>"

definition now0 :: clock where
  "now0 = \<lparr>stamp = ''20251028143000'', iso8601 = ''2025-10-28T14:30:00Z'', unix = 1761661800\<rparr>"

definition empty_store :: store where
  "empty_store =
     \<lparr>hash_at = (\<lambda>k. []), set_at = (\<lambda>k. []), list_at = (\<lambda>k. []), log_at = (\<lambda>k. []),
      faults = []\<rparr>"

definition scenario_A :: store where
  "scenario_A =
     empty_store
       \<lparr>hash_at := (\<lambda>k. [])
          (RoomInfo ''1'' ''3'' := [(''status'', ''waiting'')],
           GameState ''1'' ''3'' := [(''phase'', ''waiting''), (''game_id'', [])]),
        set_at := (\<lambda>k. [])(RoomPlayers ''1'' ''3'' := [''u1'', ''u2''])\<rparr>"

definition scenario_B :: store where
  "scenario_B =
     empty_store
       \<lparr>hash_at := (\<lambda>k. [])
          (RoomInfo ''1'' ''3'' := [(''status'', ''gaming'')],
           GameState ''1'' ''3'' :=
             [(''phase'', ''flop''), (''game_id'', ''20251028142900_1_3''), (''pot'', ''150''),
              (''current_bet'', ''50''), (''community_cards'', json_cards [''2C'', ''7D'', ''JS''])],
           PlayerInfo ''1'' ''3'' ''u1'' :=
             [(''status'', ''active''), (''bet'', ''50''), (''cards'', json_cards [''AH'', ''KD'']),
              (''last_action'', ''call''), (''is_dealer'', ''1''), (''is_small_blind'', ''0''),
              (''is_big_blind'', ''0'')]),
        set_at := (\<lambda>k. [])(RoomPlayers ''1'' ''3'' := [''u1''])\<rparr>"

definition two_card_deck :: store where
  "two_card_deck = empty_store\<lparr>list_at := (\<lambda>k. [])(RoomDeck ''1'' ''3'' := [''AH'', ''2H''])\<rparr>"

definition three_players :: store where
  "three_players =
     empty_store\<lparr>set_at := (\<lambda>k. [])(RoomPlayers ''1'' ''3'' := [''u1'', ''u2'', ''u3''])\<rparr>"

definition scenario_finished :: store where
  "scenario_finished =
     empty_store
       \<lparr>hash_at := (\<lambda>k. [])
          (RoomInfo ''1'' ''3'' := [(''status'', ''gaming'')],
           GameState ''1'' ''3'' := [(''phase'', ''finished''), (''game_id'', ''20251028142900_1_3'')]),
        set_at := (\<lambda>k. [])(RoomPlayers ''1'' ''3'' := [''u1'', ''u2''])\<rparr>"

section \<open>Phase transitions\<close>

lemma map_of_validTransitions:
  "map_of validTransitions p =
     (if p = ''waiting'' then Some [''pre_flop'']
      else if p = ''pre_flop'' then Some [''flop'', ''showdown'', ''finished'']
      else if p = ''flop'' then Some [''turn'', ''showdown'', ''finished'']
      else if p = ''turn'' then Some [''river'', ''showdown'', ''finished'']
      else if p = ''river'' then Some [''showdown'', ''finished'']
      else if p = ''showdown'' then Some [''finished'', ''pre_flop'']
      else if p = ''finished'' then Some [''waiting'', ''pre_flop'']
      else None)"
  by (simp add: validTransitions_def GamePhaseWaiting_def GamePhasePreFlop_def
      GamePhaseFlop_def GamePhaseTurn_def GamePhaseRiver_def GamePhaseShowdown_def
      GamePhaseFinished_def)

text \<open>
  Claim C4. \<^verbatim>\<open>CanTransitionTo\<close> is a function of the current phase and the next phase
  alone, and it answers true exactly on the pairs of the transition table: for all strings,
  hence for every ordered pair of the seven phases and for every unknown phase as well.
\<close>

theorem CanTransitionTo_table:
  "CanTransitionTo g nextPhase =
     ((Phase g, nextPhase) \<in>
        {(''waiting'', ''pre_flop''),
         (''pre_flop'', ''flop''), (''pre_flop'', ''showdown''), (''pre_flop'', ''finished''),
         (''flop'', ''turn''), (''flop'', ''showdown''), (''flop'', ''finished''),
         (''turn'', ''river''), (''turn'', ''showdown''), (''turn'', ''finished''),
         (''river'', ''showdown''), (''river'', ''finished''),
         (''showdown'', ''finished''), (''showdown'', ''pre_flop''),
         (''finished'', ''waiting''), (''finished'', ''pre_flop'')})"
  unfolding CanTransitionTo_def map_of_validTransitions
  by auto

section \<open>The deck\<close>

lemma CreateDeck_eval:
  "CreateDeck =
     [''AH'', ''2H'', ''3H'', ''4H'', ''5H'', ''6H'', ''7H'', ''8H'', ''9H'', ''TH'', ''JH'', ''QH'', ''KH'',
      ''AD'', ''2D'', ''3D'', ''4D'', ''5D'', ''6D'', ''7D'', ''8D'', ''9D'', ''TD'', ''JD'', ''QD'', ''KD'',
      ''AC'', ''2C'', ''3C'', ''4C'', ''5C'', ''6C'', ''7C'', ''8C'', ''9C'', ''TC'', ''JC'', ''QC'', ''KC'',
      ''AS'', ''2S'', ''3S'', ''4S'', ''5S'', ''6S'', ''7S'', ''8S'', ''9S'', ''TS'', ''JS'', ''QS'', ''KS'']"
  by (simp add: CreateDeck_def suits_def ranks_def Hearts_def Diamonds_def Clubs_def Spades_def
      Ace_def Two_def Three_def Four_def Five_def Six_def Seven_def Eight_def Nine_def Ten_def
      Jack_def Queen_def King_def)

lemma CreateDeck_facts:
  "length CreateDeck = 52" "distinct CreateDeck" "[] \<notin> set CreateDeck"
  unfolding CreateDeck_eval by simp_all

text \<open>
  Claim C7. \<^verbatim>\<open>CreateDeck\<close> takes no input and always returns the same sequence: the 52
  codes below, suit by suit and rank by rank. They are pairwise distinct and each has two
  characters.
\<close>

theorem CreateDeck_cards:
  "CreateDeck =
     [''AH'', ''2H'', ''3H'', ''4H'', ''5H'', ''6H'', ''7H'', ''8H'', ''9H'', ''TH'', ''JH'', ''QH'', ''KH'',
      ''AD'', ''2D'', ''3D'', ''4D'', ''5D'', ''6D'', ''7D'', ''8D'', ''9D'', ''TD'', ''JD'', ''QD'', ''KD'',
      ''AC'', ''2C'', ''3C'', ''4C'', ''5C'', ''6C'', ''7C'', ''8C'', ''9C'', ''TC'', ''JC'', ''QC'', ''KC'',
      ''AS'', ''2S'', ''3S'', ''4S'', ''5S'', ''6S'', ''7S'', ''8S'', ''9S'', ''TS'', ''JS'', ''QS'', ''KS'']
   \<and> length CreateDeck = 52
   \<and> distinct CreateDeck
   \<and> list_all (\<lambda>c. length c = 2) CreateDeck"
  unfolding CreateDeck_eval by simp

section \<open>The shuffle\<close>

lemma Intn_less: "0 < n \<Longrightarrow> fst (Intn g n) < n"
  by (simp add: Intn_def split: list.splits)

lemma shuffle_loop_perm:
  "k < length xs \<Longrightarrow>
     mset (fst (shuffle_loop k g xs)) = mset xs \<and> length (fst (shuffle_loop k g xs)) = length xs"
proof (induction k arbitrary: g xs)
  case 0
  then show ?case by simp
next
  case (Suc k)
  obtain j g' where jg: "Intn g (Suc k + 1) = (j, g')" by (cases "Intn g (Suc k + 1)")
  have "fst (Intn g (Suc k + 1)) < Suc k + 1" by (rule Intn_less) simp
  with jg have j: "j < length xs" using Suc.prems by simp
  let ?ys = "xs[Suc k := xs ! j, j := xs ! Suc k]"
  have m: "mset ?ys = mset xs" using mset_swap [OF j Suc.prems] .
  have l: "length ?ys = length xs" by simp
  have "k < length ?ys" using Suc.prems by simp
  from Suc.IH [OF this, of g'] m l jg show ?case by simp
qed

lemma ShuffleDeck_perm:
  "mset (fst (ShuffleDeck g deck)) = mset deck \<and> length (fst (ShuffleDeck g deck)) = length deck"
proof (cases deck)
  case Nil
  then show ?thesis by (simp add: ShuffleDeck_def)
next
  case (Cons x xs)
  then have "length deck - 1 < length deck" by simp
  from shuffle_loop_perm [OF this] show ?thesis by (simp add: ShuffleDeck_def)
qed

text \<open>The loop on memory assigns into the array \<open>a\<close> only, and computes what the loop on values computes.\<close>

lemma shuffle_loop_heap_eq:
  "a < length h \<Longrightarrow> k < length (h ! a) \<Longrightarrow>
     shuffle_loop_heap k g a h =
       (h[a := fst (shuffle_loop k g (h ! a))], snd (shuffle_loop k g (h ! a)))"
proof (induction k arbitrary: g h)
  case 0
  then show ?case by simp
next
  case (Suc k)
  obtain j g' where jg: "Intn g (Suc k + 1) = (j, g')" by (cases "Intn g (Suc k + 1)")
  let ?h2 = "h[a := (h ! a)[Suc k := h ! a ! j, j := h ! a ! Suc k]]"
  have a: "a < length ?h2" using Suc.prems by simp
  have k: "k < length (?h2 ! a)" using Suc.prems by simp
  from Suc.IH [OF a k, of g'] jg Suc.prems show ?case
    by (simp add: Let_def split_def)
qed

lemma ShuffleDeck_heap_eq:
  assumes "deck < length h"
  shows "ShuffleDeck_heap g deck h =
     (length h, h @ [fst (ShuffleDeck g (h ! deck))], snd (ShuffleDeck g (h ! deck)))"
proof -
  let ?n = "length (h ! deck)"
  let ?h1 = "h @ [replicate ?n []]"
  have c: "copy_slice ?h1 (length h) deck = h @ [h ! deck]"
    using assms by (simp add: copy_slice_def nth_append)
  have "shuffle_loop_heap (?n - 1) g (length h) (h @ [h ! deck]) =
      ((h @ [h ! deck])[length h := fst (shuffle_loop (?n - 1) g ((h @ [h ! deck]) ! length h))],
       snd (shuffle_loop (?n - 1) g ((h @ [h ! deck]) ! length h)))"
  proof (cases "?n = 0")
    case True
    then show ?thesis by simp
  next
    case False
    then show ?thesis by (intro shuffle_loop_heap_eq) simp_all
  qed
  then show ?thesis
    using c by (simp add: ShuffleDeck_heap_def make_slice_def ShuffleDeck_def Let_def)
qed

text \<open>
  Claim C6. \<^verbatim>\<open>ShuffleDeck\<close> returns a new slice that holds the same cards as its argument,
  each as often (the same multiset, so the same length), whatever the random source draws.
  The argument's array is left as it was, and so is every other array that existed before
  the call: the function writes to the slice it allocates and to nothing else.
\<close>

theorem ShuffleDeck_pure_permutation:
  "deck < length h \<Longrightarrow>
     (case ShuffleDeck_heap g deck h of
        (shuffled, h', g') \<Rightarrow>
          mset (h' ! shuffled) = mset (h ! deck)
        \<and> length (h' ! shuffled) = length (h ! deck)
        \<and> h' ! deck = h ! deck
        \<and> take (length h) h' = h
        \<and> shuffled = length h
        \<and> h' ! shuffled = fst (ShuffleDeck g (h ! deck)))
     \<and> mset (fst (ShuffleDeck g (h ! deck))) = mset (h ! deck)
     \<and> length (fst (ShuffleDeck g (h ! deck))) = length (h ! deck)"
  using ShuffleDeck_perm [of g "h ! deck"]
  by (simp add: ShuffleDeck_heap_eq nth_append)

theorem ShuffleDeck_pure_permutation_witness:
  "(0::nat) < length [ [''AH'', ''2H'', ''3H''] ]
   \<and> (case ShuffleDeck_heap [3, 0] 0 [ [''AH'', ''2H'', ''3H''] ] of
        (shuffled, h', g') \<Rightarrow>
          mset (h' ! shuffled) = mset [''AH'', ''2H'', ''3H'']
        \<and> h' ! 0 = [''AH'', ''2H'', ''3H'']
        \<and> h' ! shuffled = [''2H'', ''3H'', ''AH''])"
  using ShuffleDeck_pure_permutation [of 0 "[ [''AH'', ''2H'', ''3H''] ]" "[3, 0]"]
  by (simp add: ShuffleDeck_heap_def make_slice_def copy_slice_def Intn_def Let_def eval_nat_numeral)

section \<open>Evaluation on concrete stores\<close>

text \<open>The definitions to unfold when a function is evaluated on one of the scenarios.\<close>

lemmas scenario_defs = empty_store_def scenario_A_def scenario_B_def scenario_finished_def
  two_card_deck_def three_players_def config0_def now0_def

lemmas key_defs = RoomInfo_def GameState_def RoomPlayers_def RoomActions_def RoomDeck_def
  PlayerInfo_def

lemmas monitor_defs = checkRoom_def GetPlayersCount_def SCard_def GetGameState_def HGetAll_def
  NewGameFromRedis_def field_def handleGameStart_def handleGameStop_def hset_def
  LogGameStarted_def LogGameStopped_def LogAction_def RPush_event_def failing_def advance_def

lemmas handler_defs = Handle_def RoomExists_def Exists_key_def IsGameActive_def IsActive_def
  GamePhaseWaiting_def GamePhaseFinished_def GetPlayerIDs_def SMembers_def resetPlayerState_def
  HMSet_def

section \<open>The store and the monitor\<close>

lemma advance_fields [simp]:
  "hash_at (advance s) = hash_at s" "set_at (advance s) = set_at s"
  "list_at (advance s) = list_at s" "log_at (advance s) = log_at s"
  "faults (advance s) = tl (faults s)"
  by (simp_all add: advance_def)

lemma no_faults [simp]: "faults s = [] \<Longrightarrow> \<not> failing s" "faults s = [] \<Longrightarrow> advance s = s"
  by (simp_all add: failing_def advance_def)

lemma keys_differ [simp]:
  "RoomInfo c r \<noteq> GameState c r" "GameState c r \<noteq> RoomInfo c r"
  by (simp_all add: RoomInfo_def GameState_def)

lemma map_of_hset:
  "map_of (hset key fld v h k) f = (if k = key \<and> f = fld then Some v else map_of (h k) f)"
  by (simp add: hset_def update_conv')

text \<open>
  The batch on a store that answers no command with an error, and on a store that rejects
  the first command only.
\<close>

lemma exec_loop_no_faults:
  "faults s = [] \<Longrightarrow>
     exec_loop cmds e s =
       (e, s\<lparr>hash_at := fold (\<lambda>(key, fld, v). hset key fld v) cmds (hash_at s)\<rparr>)"
proof (induction cmds arbitrary: s)
  case Nil
  then show ?case by simp
next
  case (Cons cmd cmds)
  obtain key fld v where cmd: "cmd = (key, fld, v)" by (cases cmd)
  let ?s1 = "s\<lparr>hash_at := hset key fld v (hash_at s)\<rparr>"
  have "faults ?s1 = []" using Cons.prems by simp
  from Cons.IH [OF this] Cons.prems cmd show ?case by (simp add: HSet_def)
qed

lemma Exec_no_faults:
  "faults s = [] \<Longrightarrow>
     Exec cmds s =
       (Inr (), s\<lparr>hash_at := fold (\<lambda>(key, fld, v). hset key fld v) cmds (hash_at s)\<rparr>)"
  by (simp add: Exec_def exec_loop_no_faults)

lemma Exec_first_fails:
  assumes "faults s = [True]"
  shows "Exec ((key, fld, v) # cmds) s =
     (Inl StoreError,
      s\<lparr>faults := [], hash_at := fold (\<lambda>(key, fld, v). hset key fld v) cmds (hash_at s)\<rparr>)"
proof -
  have f: "failing s" and a: "advance s = s\<lparr>faults := []\<rparr>"
    using assms by (simp_all add: failing_def advance_def)
  have "faults (s\<lparr>faults := []\<rparr>) = []" by simp
  from exec_loop_no_faults [OF this, of cmds "Some StoreError"] f a show ?thesis
    by (simp add: Exec_def HSet_def)
qed

lemma GetPlayersCount_ok:
  "\<not> failing s \<Longrightarrow>
     GetPlayersCount c r s = (Inr (int (length (set_at s (RoomPlayers c r)))), advance s)"
  by (simp add: GetPlayersCount_def SCard_def)

lemma GetPlayersCount_fail: "failing s \<Longrightarrow> GetPlayersCount c r s = (Inl StoreError, advance s)"
  by (simp add: GetPlayersCount_def SCard_def)

lemma GetGameState_ok:
  "\<not> failing s \<Longrightarrow>
     GetGameState c r s =
       (if hash_at s (GameState c r) = [] then (Inr None, advance s)
        else (Inr (Some \<lparr>GameID = field (hash_at s (GameState c r)) ''game_id'', RoomID = r,
                          ClubID = c, Phase = field (hash_at s (GameState c r)) ''phase''\<rparr>),
              advance s))"
  by (simp add: GetGameState_def HGetAll_def NewGameFromRedis_def)

lemma GetGameState_fail: "failing s \<Longrightarrow> GetGameState c r s = (Inl StoreError, advance s)"
  by (simp add: GetGameState_def HGetAll_def)

lemma checkRoom_reads_ok:
  assumes "\<not> failing s" "\<not> failing (advance s)"
  shows "checkRoom config now c r s =
     (if hash_at s (GameState c r) = [] then (None, advance (advance s))
      else if MinPlayersToStart config \<le> int (length (set_at s (RoomPlayers c r)))
              \<and> field (hash_at s (GameState c r)) ''phase'' = ''waiting''
      then (Some (StartGame (int (length (set_at s (RoomPlayers c r))))),
            snd (handleGameStart now c r (int (length (set_at s (RoomPlayers c r))))
                   (advance (advance s))))
      else if int (length (set_at s (RoomPlayers c r))) < MinPlayersToStart config
              \<and> field (hash_at s (GameState c r)) ''phase'' \<noteq> ''waiting''
      then (Some (StopGame (field (hash_at s (GameState c r)) ''phase'') ''insufficient_players''),
            snd (handleGameStop now c r (field (hash_at s (GameState c r)) ''phase'')
                   ''insufficient_players'' (advance (advance s))))
      else (Some NoTransition, advance (advance s)))"
  using assms
  by (simp add: checkRoom_def GetPlayersCount_ok GetGameState_ok Let_def)

lemma checkRoom_reads_fail:
  "failing s \<Longrightarrow> checkRoom config now c r s = (None, advance s)"
  "\<not> failing s \<Longrightarrow> failing (advance s) \<Longrightarrow> checkRoom config now c r s = (None, advance (advance s))"
  by (simp_all add: checkRoom_def GetPlayersCount_ok GetPlayersCount_fail GetGameState_fail)

text \<open>
  Claim C1. When both reads of \<^verbatim>\<open>checkRoom\<close> succeed: a room with no game record is
  skipped, nothing is invoked and nothing is written. For a room with a game record, with
  \<open>playersCount\<close> the number of seated players and \<open>phase\<close> the stored phase, the start
  transition is invoked exactly when \<open>playersCount \<ge> MinPlayersToStart\<close> and the phase is
  \<open>waiting\<close>; otherwise the stop transition is invoked, with the current phase and the
  reason \<open>insufficient_players\<close>, exactly when \<open>playersCount < MinPlayersToStart\<close> and the
  phase is not \<open>waiting\<close>; otherwise nothing is invoked. One of the three always happens, and
  the store after the check is the store the invoked transition leaves.
\<close>

theorem checkRoom_decision:
  assumes "\<not> failing s" and "\<not> failing (advance s)"
  shows
    "(hash_at s (GameState clubID roomID) = [] \<longrightarrow>
        checkRoom config now clubID roomID s = (None, advance (advance s)))
   \<and> (hash_at s (GameState clubID roomID) \<noteq> [] \<longrightarrow>
       (let playersCount = int (length (set_at s (RoomPlayers clubID roomID)));
            phase = field (hash_at s (GameState clubID roomID)) ''phase'';
            s2 = advance (advance s);
            res = checkRoom config now clubID roomID s
        in ((fst res = Some (StartGame playersCount))
              = (playersCount \<ge> MinPlayersToStart config \<and> phase = ''waiting''))
         \<and> ((fst res = Some (StopGame phase ''insufficient_players''))
              = (\<not> (playersCount \<ge> MinPlayersToStart config \<and> phase = ''waiting'')
                 \<and> playersCount < MinPlayersToStart config \<and> phase \<noteq> ''waiting''))
         \<and> ((fst res = Some NoTransition)
              = (\<not> (playersCount \<ge> MinPlayersToStart config \<and> phase = ''waiting'')
                 \<and> \<not> (playersCount < MinPlayersToStart config \<and> phase \<noteq> ''waiting'')))
         \<and> (fst res = Some (StartGame playersCount)
              \<or> fst res = Some (StopGame phase ''insufficient_players'')
              \<or> fst res = Some NoTransition)
         \<and> snd res =
             (if fst res = Some (StartGame playersCount)
              then snd (handleGameStart now clubID roomID playersCount s2)
              else if fst res = Some (StopGame phase ''insufficient_players'')
              then snd (handleGameStop now clubID roomID phase ''insufficient_players'' s2)
              else s2)))"
  using assms by (simp add: checkRoom_reads_ok Let_def)

text \<open>
  Claim C10. For a room whose stored phase is \<open>finished\<close> and which has at least
  \<open>MinPlayersToStart\<close> seated players, \<^verbatim>\<open>checkRoom\<close> invokes neither transition (no
  transition when both reads succeed, an early return otherwise) and every hash, set, list
  and action log of the store is left as it was.
\<close>

theorem checkRoom_finished_frame:
  assumes "field (hash_at s (GameState clubID roomID)) ''phase'' = ''finished''"
    and "MinPlayersToStart config \<le> int (length (set_at s (RoomPlayers clubID roomID)))"
  shows
    "(let res = checkRoom config now clubID roomID s
      in fst res = (if failing s \<or> failing (advance s) then None else Some NoTransition)
       \<and> hash_at (snd res) = hash_at s
       \<and> set_at (snd res) = set_at s
       \<and> list_at (snd res) = list_at s
       \<and> log_at (snd res) = log_at s)"
proof -
  have present: "hash_at s (GameState clubID roomID) \<noteq> []"
    using assms(1) by (auto simp: field_def)
  show ?thesis
  proof (cases "failing s")
    case True
    then show ?thesis by (simp add: checkRoom_reads_fail)
  next
    case False
    then show ?thesis using assms present
      by (cases "failing (advance s)") (simp_all add: checkRoom_reads_fail checkRoom_reads_ok)
  qed
qed

theorem checkRoom_decision_witness:
  "\<not> failing empty_store \<and> \<not> failing (advance empty_store)
   \<and> hash_at empty_store (GameState ''1'' ''3'') = []
   \<and> checkRoom config0 now0 ''1'' ''3'' empty_store = (None, empty_store)
   \<and> \<not> failing scenario_A \<and> \<not> failing (advance scenario_A)
   \<and> hash_at scenario_A (GameState ''1'' ''3'') \<noteq> []
   \<and> fst (checkRoom config0 now0 ''1'' ''3'' scenario_A) = Some (StartGame 2)
   \<and> \<not> failing scenario_B \<and> \<not> failing (advance scenario_B)
   \<and> hash_at scenario_B (GameState ''1'' ''3'') \<noteq> []
   \<and> fst (checkRoom config0 now0 ''1'' ''3'' scenario_B)
       = Some (StopGame ''flop'' ''insufficient_players'')"
  using checkRoom_decision [of empty_store "''1''" "''3''" config0 now0]
    checkRoom_decision [of scenario_A "''1''" "''3''" config0 now0]
    checkRoom_decision [of scenario_B "''1''" "''3''" config0 now0]
  by (simp add: scenario_defs key_defs failing_def advance_def field_def Let_def)

theorem checkRoom_finished_frame_witness:
  "field (hash_at scenario_finished (GameState ''1'' ''3'')) ''phase'' = ''finished''
   \<and> MinPlayersToStart config0 \<le> int (length (set_at scenario_finished (RoomPlayers ''1'' ''3'')))
   \<and> checkRoom config0 now0 ''1'' ''3'' scenario_finished = (Some NoTransition, scenario_finished)"
  using checkRoom_finished_frame [of scenario_finished "''1''" "''3''" config0 now0]
  by (simp add: scenario_defs key_defs monitor_defs Let_def)

lemma Handle_inactive:
  assumes "\<not> failing s" "\<not> failing (advance s)" "hash_at s (RoomInfo c r) \<noteq> []"
    "\<not> IsActive \<lparr>GameID = field (hash_at s (GameState c r)) ''game_id'', RoomID = r,
                  ClubID = c, Phase = field (hash_at s (GameState c r)) ''phase''\<rparr>"
  shows "Handle now c r previousPhase reason s = (Inr (), advance (advance s))"
  using assms
  by (simp add: Handle_def RoomExists_def Exists_key_def IsGameActive_def GetGameState_ok)

text \<open>
  Claim C9. \<^verbatim>\<open>GameStopHandler.Handle\<close> on an existing room whose game is in phase
  \<open>waiting\<close>, when its two reads succeed: it returns nil, writes nothing to any hash, set
  or list, appends no event to the action log, and makes no further round trip.
\<close>

theorem Handle_waiting_noop:
  assumes "\<not> failing s" and "\<not> failing (advance s)"
    and "hash_at s (RoomInfo clubID roomID) \<noteq> []"
    and "field (hash_at s (GameState clubID roomID)) ''phase'' = ''waiting''"
  shows
    "(let res = Handle now clubID roomID previousPhase reason s
      in fst res = Inr ()
       \<and> hash_at (snd res) = hash_at s
       \<and> set_at (snd res) = set_at s
       \<and> list_at (snd res) = list_at s
       \<and> log_at (snd res) = log_at s
       \<and> faults (snd res) = tl (tl (faults s)))"
  using assms
  by (simp add: Handle_inactive IsActive_def GamePhaseWaiting_def)

theorem Handle_waiting_noop_witness:
  "\<not> failing scenario_A \<and> \<not> failing (advance scenario_A)
   \<and> hash_at scenario_A (RoomInfo ''1'' ''3'') \<noteq> []
   \<and> field (hash_at scenario_A (GameState ''1'' ''3'')) ''phase'' = ''waiting''
   \<and> Handle now0 ''1'' ''3'' ''waiting'' ''insufficient_players'' scenario_A = (Inr (), scenario_A)"
  using Handle_waiting_noop [of scenario_A "''1''" "''3''" now0 "''waiting''" "''insufficient_players''"]
  by (simp add: scenario_defs key_defs failing_def advance_def field_def Let_def
      Handle_def RoomExists_def Exists_key_def IsGameActive_def GetGameState_def HGetAll_def
      NewGameFromRedis_def IsActive_def GamePhaseWaiting_def)

section \<open>The start transition and a failed batch\<close>

text \<open>
  Claim C2. Scenario A, where the store answers the first command of the batch, the write
  of the room status, with an error and executes the five others. \<^verbatim>\<open>handleGameStart\<close>
  returns the error and logs no event, but the batch has not failed as a whole: the game
  record already holds phase \<open>pre_flop\<close>, the new game id, the start time, pot \<open>0\<close> and
  current bet \<open>0\<close>, while the room status is still \<open>waiting\<close>. The phase is no longer
  \<open>waiting\<close>, so the next check of the room invokes nothing and the start is not tried
  again. When the store executes all six commands, the six fields are written, the call
  returns nil and the event is logged.
\<close>

theorem handleGameStart_partial_write:
  "(let s = scenario_A\<lparr>faults := [True]\<rparr>;
        res = handleGameStart now0 ''1'' ''3'' 2 s;
        room = hash_at (snd res) (RoomInfo ''1'' ''3'');
        game = hash_at (snd res) (GameState ''1'' ''3'');
        ok = handleGameStart now0 ''1'' ''3'' 2 scenario_A
    in field (hash_at s (GameState ''1'' ''3'')) ''phase'' = ''waiting''
     \<and> fst res = Inl StoreError
     \<and> field room ''status'' = ''waiting''
     \<and> field game ''phase'' = ''pre_flop''
     \<and> field game ''game_id'' = ''20251028143000_1_3''
     \<and> field game ''started_at'' = ''2025-10-28T14:30:00Z''
     \<and> field game ''pot'' = ''0'' \<and> field game ''current_bet'' = ''0''
     \<and> log_at (snd res) (RoomActions ''1'' ''3'') = []
     \<and> faults (snd res) = []
     \<and> checkRoom config0 now0 ''1'' ''3'' (snd res) = (Some NoTransition, snd res)
     \<and> fst ok = Inr ()
     \<and> field (hash_at (snd ok) (RoomInfo ''1'' ''3'')) ''status'' = ''gaming''
     \<and> field (hash_at (snd ok) (GameState ''1'' ''3'')) ''phase'' = ''pre_flop''
     \<and> log_at (snd ok) (RoomActions ''1'' ''3'') =
         [\<lparr>Action = ''game_started'', Timestamp = 1761661800, Source = ''game_engine'',
           Data = [(''game_id'', JString ''20251028143000_1_3''),
                   (''phase'', JString ''pre_flop''), (''players_count'', JInt 2)]\<rparr>])"
  by (simp add: scenario_defs key_defs monitor_defs Exec_no_faults Exec_first_fails Let_def)

section \<open>Drawing\<close>

lemma DrawCard_fail: "failing s \<Longrightarrow> DrawCard c r s = (Inl StoreError, advance s)"
  by (simp add: DrawCard_def RPop_def)

lemma DrawCard_empty:
  "\<not> failing s \<Longrightarrow> list_at s (RoomDeck c r) = [] \<Longrightarrow> DrawCard c r s = (Inr [], advance s)"
  by (simp add: DrawCard_def RPop_def)

lemma DrawCard_snoc:
  "\<not> failing s \<Longrightarrow> list_at s (RoomDeck c r) = ys @ [y] \<Longrightarrow>
     DrawCard c r s = (Inr y, (advance s)\<lparr>list_at := (list_at s)(RoomDeck c r := ys)\<rparr>)"
  by (cases ys) (simp_all add: DrawCard_def RPop_def)

lemma DrawCard_error: "fst (DrawCard c r s) = Inl err \<Longrightarrow> err = StoreError"
  by (auto simp: DrawCard_def RPop_def Let_def split: if_splits list.splits)

lemma draw_loop_bound:
  "(case fst (draw_loop k c r acc s) of
      Inl err \<Rightarrow> err = StoreError
    | Inr cards \<Rightarrow> length cards \<le> length acc + k)"
proof (induction k arbitrary: acc s)
  case 0
  then show ?case by simp
next
  case (Suc k)
  obtain res s1 where d: "DrawCard c r s = (res, s1)" by (cases "DrawCard c r s")
  show ?case
  proof (cases res)
    case (Inl err)
    with d DrawCard_error [of c r s err] show ?thesis by simp
  next
    case (Inr drawn)
    show ?thesis
    proof (cases "drawn = []")
      case True
      with d Inr show ?thesis by simp
    next
      case False
      from Suc.IH [of "acc @ [drawn]" s1] d Inr False show ?thesis
        by (simp split: sum.splits)
    qed
  qed
qed

lemma list_at_same: "list_at s k = v \<Longrightarrow> s\<lparr>list_at := (list_at s)(k := v)\<rparr> = s"
proof -
  assume "list_at s k = v"
  then have "(list_at s)(k := v) = list_at s" by auto
  then show ?thesis by simp
qed

lemma draw_loop_ok:
  "faults s = [] \<Longrightarrow> [] \<notin> set (list_at s (RoomDeck c r)) \<Longrightarrow>
     draw_loop k c r acc s =
       (Inr (acc @ take k (rev (list_at s (RoomDeck c r)))),
        s\<lparr>list_at := (list_at s)
             (RoomDeck c r :=
                take (length (list_at s (RoomDeck c r)) - k) (list_at s (RoomDeck c r)))\<rparr>)"
proof (induction k arbitrary: acc s)
  case 0
  then show ?case by simp
next
  case (Suc k)
  show ?case
  proof (cases "list_at s (RoomDeck c r)" rule: rev_cases)
    case Nil
    have e: "s\<lparr>list_at := (list_at s)
             (RoomDeck c r :=
                take (length (list_at s (RoomDeck c r)) - Suc k) (list_at s (RoomDeck c r)))\<rparr> = s"
      using Nil by (intro list_at_same) simp
    have "draw_loop (Suc k) c r acc s = (Inr acc, s)"
      using Suc.prems Nil by (simp add: DrawCard_empty)
    then show ?thesis unfolding e using Nil by simp
  next
    case (snoc ys y)
    let ?s1 = "s\<lparr>list_at := (list_at s)(RoomDeck c r := ys)\<rparr>"
    have y: "y \<noteq> []" using Suc.prems snoc by auto
    have d: "DrawCard c r s = (Inr y, ?s1)"
      using Suc.prems snoc by (simp add: DrawCard_snoc)
    have f: "faults ?s1 = []" using Suc.prems by simp
    have n: "[] \<notin> set (list_at ?s1 (RoomDeck c r))" using Suc.prems snoc by auto
    from Suc.IH [OF f n, of "acc @ [y]"] d y snoc show ?thesis by (simp cong: if_cong)
  qed
qed

text \<open>
  Claim C5. \<^verbatim>\<open>DrawCard\<close> on an empty deck returns the empty string and no error.
  \<^verbatim>\<open>DrawCards\<close> is a total function. For every \<open>n \<ge> 0\<close> whose slice the runtime can
  allocate (\<open>n\<close> strings of 16 bytes within the allocator's limit of \<open>2 ^ 48\<close> bytes and
  within the memory available), its result is either the store's error or at most \<open>n\<close>
  cards. For such an \<open>n\<close>, on a reachable store whose deck holds no empty string, it
  returns the last \<open>n\<close> cards of the deck, last first, and leaves the others; when the deck
  holds fewer than \<open>n\<close> cards it returns them all, without error, and leaves the deck
  empty. For an \<open>n\<close> beyond the allocator's limit the call panics before any card is
  drawn.
\<close>

theorem DrawCards_within_capacity:
  "(\<not> failing s \<and> list_at s (RoomDeck clubID roomID) = []
      \<longrightarrow> DrawCard clubID roomID s = (Inr [], advance s))
   \<and> (0 \<le> n \<and> 16 * n \<le> 2 ^ 48 \<and> 16 * n \<le> avail \<longrightarrow>
        (case fst (DrawCards avail clubID roomID n s) of
           Inl err \<Rightarrow> err = StoreError
         | Inr cards \<Rightarrow> int (length cards) \<le> n))
   \<and> (0 \<le> n \<and> 16 * n \<le> 2 ^ 48 \<and> 16 * n \<le> avail
        \<and> faults s = [] \<and> [] \<notin> set (list_at s (RoomDeck clubID roomID)) \<longrightarrow>
        DrawCards avail clubID roomID n s =
          (Inr (take (nat n) (rev (list_at s (RoomDeck clubID roomID)))),
           s\<lparr>list_at := (list_at s)
                (RoomDeck clubID roomID :=
                   take (length (list_at s (RoomDeck clubID roomID)) - nat n)
                     (list_at s (RoomDeck clubID roomID)))\<rparr>))
   \<and> (16 * n \<le> 2 ^ 48 \<and> 16 * n \<le> avail
        \<and> faults s = [] \<and> [] \<notin> set (list_at s (RoomDeck clubID roomID))
        \<and> int (length (list_at s (RoomDeck clubID roomID))) < n \<longrightarrow>
        DrawCards avail clubID roomID n s =
          (Inr (rev (list_at s (RoomDeck clubID roomID))),
           s\<lparr>list_at := (list_at s)(RoomDeck clubID roomID := [])\<rparr>))
   \<and> (2 ^ 48 < 16 * n \<longrightarrow> DrawCards avail clubID roomID n s = (Inl MakeSlicePanic, s))"
proof (intro conjI impI)
  assume "\<not> failing s \<and> list_at s (RoomDeck clubID roomID) = []"
  then show "DrawCard clubID roomID s = (Inr [], advance s)" by (simp add: DrawCard_empty)
next
  assume "0 \<le> n \<and> 16 * n \<le> 2 ^ 48 \<and> 16 * n \<le> avail"
  with draw_loop_bound [where k = "nat n" and acc = "[]" and c = clubID and r = roomID and s = s]
  show "case fst (DrawCards avail clubID roomID n s) of
           Inl err \<Rightarrow> err = StoreError
         | Inr cards \<Rightarrow> int (length cards) \<le> n"
    by (simp add: DrawCards_def maxAlloc_def stringSize_def split: sum.splits)
next
  assume "0 \<le> n \<and> 16 * n \<le> 2 ^ 48 \<and> 16 * n \<le> avail
        \<and> faults s = [] \<and> [] \<notin> set (list_at s (RoomDeck clubID roomID))"
  then show "DrawCards avail clubID roomID n s =
          (Inr (take (nat n) (rev (list_at s (RoomDeck clubID roomID)))),
           s\<lparr>list_at := (list_at s)
                (RoomDeck clubID roomID :=
                   take (length (list_at s (RoomDeck clubID roomID)) - nat n)
                     (list_at s (RoomDeck clubID roomID)))\<rparr>)"
    by (simp add: DrawCards_def maxAlloc_def stringSize_def draw_loop_ok)
next
  assume a: "16 * n \<le> 2 ^ 48 \<and> 16 * n \<le> avail
        \<and> faults s = [] \<and> [] \<notin> set (list_at s (RoomDeck clubID roomID))
        \<and> int (length (list_at s (RoomDeck clubID roomID))) < n"
  then have "length (list_at s (RoomDeck clubID roomID)) - nat n = 0"
    and "length (list_at s (RoomDeck clubID roomID)) \<le> nat n" and "0 \<le> n" by linarith+
  with a show "DrawCards avail clubID roomID n s =
          (Inr (rev (list_at s (RoomDeck clubID roomID))),
           s\<lparr>list_at := (list_at s)(RoomDeck clubID roomID := [])\<rparr>)"
    by (simp add: DrawCards_def maxAlloc_def stringSize_def draw_loop_ok)
next
  assume "2 ^ 48 < 16 * n"
  then show "DrawCards avail clubID roomID n s = (Inl MakeSlicePanic, s)"
    by (simp add: DrawCards_def maxAlloc_def stringSize_def)
qed

theorem DrawCards_within_capacity_witness:
  "\<not> failing empty_store \<and> list_at empty_store (RoomDeck ''1'' ''3'') = []
   \<and> DrawCard ''1'' ''3'' empty_store = (Inr [], empty_store)
   \<and> (0::int) \<le> 5 \<and> (16::int) * 5 \<le> 2 ^ 48 \<and> (16::int) * 5 \<le> 1024
   \<and> faults two_card_deck = [] \<and> [] \<notin> set (list_at two_card_deck (RoomDeck ''1'' ''3''))
   \<and> fst (DrawCards 1024 ''1'' ''3'' 5 two_card_deck) = Inr [''2H'', ''AH'']
   \<and> list_at (snd (DrawCards 1024 ''1'' ''3'' 5 two_card_deck)) (RoomDeck ''1'' ''3'') = []
   \<and> fst (DrawCards 1024 ''1'' ''3'' 1 two_card_deck) = Inr [''2H'']
   \<and> list_at (snd (DrawCards 1024 ''1'' ''3'' 1 two_card_deck)) (RoomDeck ''1'' ''3'') = [''AH'']
   \<and> (2::int) ^ 48 < 16 * 2 ^ 45
   \<and> DrawCards (2 ^ 48) ''1'' ''3'' (2 ^ 45) two_card_deck = (Inl MakeSlicePanic, two_card_deck)"
  using DrawCards_within_capacity [of empty_store "''1''" "''3''" 5 1024]
    DrawCards_within_capacity [of two_card_deck "''1''" "''3''" 5 1024]
    DrawCards_within_capacity [of two_card_deck "''1''" "''3''" 1 1024]
    DrawCards_within_capacity [of two_card_deck "''1''" "''3''" "2 ^ 45" "2 ^ 48"]
  by (simp add: empty_store_def two_card_deck_def RoomDeck_def failing_def advance_def)

text \<open>
  The claim without the bound fails: the deck holds two cards and \<open>2 ^ 45\<close> cards are asked
  for, on a machine with all the memory the allocator can address. The call panics in
  \<^verbatim>\<open>make\<close>; it returns no card and draws none.
\<close>

theorem DrawCards_large_count_counterexample:
  "(0::int) \<le> 2 ^ 45
   \<and> DrawCards (2 ^ 48) ''1'' ''3'' (2 ^ 45) two_card_deck = (Inl MakeSlicePanic, two_card_deck)
   \<and> list_at two_card_deck (RoomDeck ''1'' ''3'') = [''AH'', ''2H'']
   \<and> \<not> (case fst (DrawCards (2 ^ 48) ''1'' ''3'' (2 ^ 45) two_card_deck) of
           Inl err \<Rightarrow> err = StoreError
         | Inr cards \<Rightarrow> int (length cards) \<le> 2 ^ 45)"
  by (simp add: DrawCards_def maxAlloc_def stringSize_def two_card_deck_def empty_store_def
      RoomDeck_def)

section \<open>Dealing\<close>

lemma PlayerInfo_eq [simp]: "(PlayerInfo c r u = PlayerInfo c r v) = (u = v)"
  by (simp add: PlayerInfo_def)

lemma deck_key_differs [simp]:
  "RoomDeck c r \<noteq> RoomPlayers c r" "RoomPlayers c r \<noteq> RoomDeck c r"
  "RoomDeck c r \<noteq> PlayerInfo c r u" "PlayerInfo c r u \<noteq> RoomDeck c r"
  by (simp_all add: RoomDeck_def RoomPlayers_def PlayerInfo_def)

lemma DrawCards_two:
  assumes "32 \<le> avail" "faults s = []" "[] \<notin> set (list_at s (RoomDeck c r))"
  shows "DrawCards avail c r 2 s =
     (Inr (take 2 (rev (list_at s (RoomDeck c r)))),
      s\<lparr>list_at := (list_at s)
           (RoomDeck c r := take (length (list_at s (RoomDeck c r)) - 2) (list_at s (RoomDeck c r)))\<rparr>)"
  using assms by (simp add: DrawCards_def maxAlloc_def stringSize_def draw_loop_ok)

lemma savePlayerCards_ok:
  "faults s = [] \<Longrightarrow>
     savePlayerCards c r u cards s =
       (Inr (), s\<lparr>hash_at := hset (PlayerInfo c r u) ''cards'' (json_cards cards) (hash_at s)\<rparr>)"
  by (simp add: savePlayerCards_def HSet_def)

lemma take_two: "2 \<le> length xs \<Longrightarrow> take 2 xs = [xs ! 0, xs ! 1]"
  by (cases xs; cases "tl xs") auto

lemma deal_loop_step:
  assumes "32 \<le> avail" "faults s = []" "[] \<notin> set (list_at s (RoomDeck c r))"
    "2 \<le> length (list_at s (RoomDeck c r))"
  shows "deal_loop avail c r (u # rest) s =
     deal_loop avail c r rest
       (s\<lparr>list_at := (list_at s)
             (RoomDeck c r := take (length (list_at s (RoomDeck c r)) - 2) (list_at s (RoomDeck c r))),
           hash_at := hset (PlayerInfo c r u) ''cards''
             (json_cards [rev (list_at s (RoomDeck c r)) ! 0, rev (list_at s (RoomDeck c r)) ! 1])
             (hash_at s)\<rparr>)"
  using assms by (simp add: Let_def DrawCards_two savePlayerCards_ok take_two)

lemma deal_loop_short:
  assumes "32 \<le> avail" "faults s = []" "[] \<notin> set (list_at s (RoomDeck c r))"
    "length (list_at s (RoomDeck c r)) < 2"
  shows "fst (deal_loop avail c r (u # rest) s) = Inl DeckExhausted"
  using assms(4) unfolding deal_loop.simps Let_def DrawCards_two [OF assms(1,2,3)] by simp

lemma deal_loop_exhausted:
  "32 \<le> avail \<Longrightarrow> faults s = [] \<Longrightarrow> [] \<notin> set (list_at s (RoomDeck c r)) \<Longrightarrow>
   length (list_at s (RoomDeck c r)) < 2 * length ps \<Longrightarrow>
     fst (deal_loop avail c r ps s) = Inl DeckExhausted"
proof (induction ps arbitrary: s)
  case Nil
  then show ?case by simp
next
  case (Cons u rest)
  let ?dk = "list_at s (RoomDeck c r)"
  show ?case
  proof (cases "length ?dk < 2")
    case True
    with Cons.prems show ?thesis by (intro deal_loop_short)
  next
    case False
    let ?s2 = "s\<lparr>list_at := (list_at s)(RoomDeck c r := take (length ?dk - 2) ?dk),
           hash_at := hset (PlayerInfo c r u) ''cards''
             (json_cards [rev ?dk ! 0, rev ?dk ! 1]) (hash_at s)\<rparr>"
    have step: "deal_loop avail c r (u # rest) s = deal_loop avail c r rest ?s2"
      using Cons.prems False by (intro deal_loop_step) simp_all
    have f: "faults ?s2 = []" using Cons.prems by simp
    have n: "[] \<notin> set (list_at ?s2 (RoomDeck c r))"
      using Cons.prems by (auto dest: in_set_takeD)
    have l: "length (list_at ?s2 (RoomDeck c r)) < 2 * length rest"
      using Cons.prems False by simp
    from Cons.IH [OF Cons.prems(1) f n l] step show ?thesis by simp
  qed
qed

lemma deal_loop_ok:
  "32 \<le> avail \<Longrightarrow> faults s = [] \<Longrightarrow> [] \<notin> set (list_at s (RoomDeck c r)) \<Longrightarrow> distinct ps \<Longrightarrow>
   2 * length ps \<le> length (list_at s (RoomDeck c r)) \<Longrightarrow>
     fst (deal_loop avail c r ps s) = Inr ()
   \<and> faults (snd (deal_loop avail c r ps s)) = []
   \<and> list_at (snd (deal_loop avail c r ps s)) (RoomDeck c r) =
       take (length (list_at s (RoomDeck c r)) - 2 * length ps) (list_at s (RoomDeck c r))
   \<and> (\<forall>i<length ps.
        map_of (hash_at (snd (deal_loop avail c r ps s)) (PlayerInfo c r (ps ! i))) ''cards'' =
          Some (json_cards [rev (list_at s (RoomDeck c r)) ! (2 * i),
                            rev (list_at s (RoomDeck c r)) ! (2 * i + 1)]))
   \<and> (\<forall>k. k \<notin> PlayerInfo c r ` set ps \<longrightarrow>
        hash_at (snd (deal_loop avail c r ps s)) k = hash_at s k)"
proof (induction ps arbitrary: s)
  case Nil
  then show ?case by simp
next
  case (Cons u rest)
  let ?dk = "list_at s (RoomDeck c r)"
  let ?dk' = "take (length ?dk - 2) ?dk"
  let ?s2 = "s\<lparr>list_at := (list_at s)(RoomDeck c r := ?dk'),
           hash_at := hset (PlayerInfo c r u) ''cards''
             (json_cards [rev ?dk ! 0, rev ?dk ! 1]) (hash_at s)\<rparr>"
  have len: "2 \<le> length ?dk" using Cons.prems by simp
  have step: "deal_loop avail c r (u # rest) s = deal_loop avail c r rest ?s2"
    using Cons.prems len by (intro deal_loop_step) simp_all
  have f: "faults ?s2 = []" using Cons.prems by simp
  have dk2: "list_at ?s2 (RoomDeck c r) = ?dk'" by simp
  have n: "[] \<notin> set (list_at ?s2 (RoomDeck c r))"
    using Cons.prems by (auto dest: in_set_takeD)
  have d: "distinct rest" and u: "u \<notin> set rest" using Cons.prems by simp_all
  have l: "2 * length rest \<le> length (list_at ?s2 (RoomDeck c r))"
    using Cons.prems by simp
  note IH = Cons.IH [OF Cons.prems(1) f n d l, unfolded dk2]
  have revdk: "rev ?dk' = drop 2 (rev ?dk)"
    using len by (simp add: rev_take)
  have ukey: "PlayerInfo c r u \<notin> PlayerInfo c r ` set rest" using u by auto
  have "\<forall>i<length (u # rest).
        map_of (hash_at (snd (deal_loop avail c r rest ?s2)) (PlayerInfo c r ((u # rest) ! i))) ''cards'' =
          Some (json_cards [rev ?dk ! (2 * i), rev ?dk ! (2 * i + 1)])"
  proof (intro allI impI)
    fix i assume i: "i < length (u # rest)"
    show "map_of (hash_at (snd (deal_loop avail c r rest ?s2)) (PlayerInfo c r ((u # rest) ! i))) ''cards'' =
          Some (json_cards [rev ?dk ! (2 * i), rev ?dk ! (2 * i + 1)])"
    proof (cases i)
      case 0
      have "hash_at (snd (deal_loop avail c r rest ?s2)) (PlayerInfo c r u) = hash_at ?s2 (PlayerInfo c r u)"
        using IH ukey by blast
      then show ?thesis using 0 by (simp add: map_of_hset)
    next
      case (Suc j)
      then have j: "j < length rest" using i by simp
      have "2 * j + 1 < length (drop 2 (rev ?dk))" using j Cons.prems by simp
      then have "drop 2 (rev ?dk) ! (2 * j) = rev ?dk ! (2 * Suc j)"
        and "drop 2 (rev ?dk) ! (2 * j + 1) = rev ?dk ! (2 * Suc j + 1)"
        by (simp_all add: add.commute)
      with IH j Suc show ?thesis by (simp add: revdk)
    qed
  qed
  moreover have "\<forall>k. k \<notin> PlayerInfo c r ` set (u # rest) \<longrightarrow>
        hash_at (snd (deal_loop avail c r rest ?s2)) k = hash_at s k"
  proof (intro allI impI)
    fix k assume k: "k \<notin> PlayerInfo c r ` set (u # rest)"
    then have "k \<notin> PlayerInfo c r ` set rest" and "k \<noteq> PlayerInfo c r u" by auto
    with IH show "hash_at (snd (deal_loop avail c r rest ?s2)) k = hash_at s k"
      by (simp add: hset_def)
  qed
  moreover have "take (length ?dk' - 2 * length rest) ?dk' = take (length ?dk - 2 * length (u # rest)) ?dk"
    using len by (simp add: min_def)
  ultimately show ?case using IH step by simp
qed

lemma GetPlayerIDs_ok:
  "faults s = [] \<Longrightarrow> GetPlayerIDs c r s = (Inr (set_at s (RoomPlayers c r)), s)"
  by (simp add: GetPlayerIDs_def SMembers_def)

lemma SaveDeckToRedis_ok:
  assumes "faults s = []" "deck \<noteq> []"
  shows "fst (SaveDeckToRedis c r deck s) = Inr ()"
    and "faults (snd (SaveDeckToRedis c r deck s)) = []"
    and "list_at (snd (SaveDeckToRedis c r deck s)) (RoomDeck c r) = deck"
  using assms by (simp_all add: SaveDeckToRedis_def Del_def RPush_def failing_def advance_def Let_def)

lemma GetDeckSize_frame:
  "hash_at (snd (GetDeckSize c r s)) = hash_at s"
  "list_at (snd (GetDeckSize c r s)) = list_at s"
  by (simp_all add: GetDeckSize_def LLen_def)

lemma CreateAndShuffleDeck_eq: "CreateAndShuffleDeck g = ShuffleDeck g CreateDeck"
  by (simp add: CreateAndShuffleDeck_def)

lemma shuffled_deck_facts:
  "mset (fst (ShuffleDeck g CreateDeck)) = mset CreateDeck"
  "length (fst (ShuffleDeck g CreateDeck)) = 52"
  "distinct (fst (ShuffleDeck g CreateDeck))"
  "[] \<notin> set (fst (ShuffleDeck g CreateDeck))"
proof -
  show m: "mset (fst (ShuffleDeck g CreateDeck)) = mset CreateDeck"
    using ShuffleDeck_perm [of g CreateDeck] by simp
  show "length (fst (ShuffleDeck g CreateDeck)) = 52"
    using ShuffleDeck_perm [of g CreateDeck] CreateDeck_facts(1) by simp
  show "distinct (fst (ShuffleDeck g CreateDeck))"
    using mset_eq_imp_distinct_iff [OF m] CreateDeck_facts(2) by simp
  show "[] \<notin> set (fst (ShuffleDeck g CreateDeck))"
    using mset_eq_setD [OF m] CreateDeck_facts(3) by simp
qed

lemma DealCardsToPlayers_unfold:
  assumes "faults s = []" "set_at s (RoomPlayers c r) \<noteq> []"
  shows "DealCardsToPlayers avail c r g s =
     (case deal_loop avail c r (set_at s (RoomPlayers c r))
             (snd (SaveDeckToRedis c r (fst (ShuffleDeck g CreateDeck)) s)) of
        (Inl err, s3) \<Rightarrow> (Inl err, snd (ShuffleDeck g CreateDeck), s3)
      | (Inr u, s3) \<Rightarrow> (Inr (), snd (ShuffleDeck g CreateDeck), snd (GetDeckSize c r s3)))"
proof -
  have ne: "fst (ShuffleDeck g CreateDeck) \<noteq> []"
    using shuffled_deck_facts(2) [of g] by auto
  obtain res s2 where sv: "SaveDeckToRedis c r (fst (ShuffleDeck g CreateDeck)) s = (res, s2)"
    by (cases "SaveDeckToRedis c r (fst (ShuffleDeck g CreateDeck)) s")
  with SaveDeckToRedis_ok(1) [OF assms(1) ne, of c r] have "res = Inr ()" by simp
  with sv assms show ?thesis
    by (simp add: DealCardsToPlayers_def CreateAndShuffleDeck_eq GetPlayerIDs_ok split_def Let_def)
qed

text \<open>The deck that the generator \<open>[7, 3, 9]\<close> shuffles: its first three swaps are with
  positions 7, 3 and 9, the others with position 0.\<close>

lemma shuffle_example:
  "fst (ShuffleDeck [7, 3, 9] CreateDeck) =
     [''2H'', ''3H'', ''QS'', ''5H'', ''6H'', ''7H'', ''KS'', ''9H'', ''JS'',
      ''JH'', ''QH'', ''KH'', ''AD'', ''2D'', ''3D'', ''4D'', ''5D'', ''6D'',
      ''7D'', ''8D'', ''9D'', ''TD'', ''JD'', ''QD'', ''KD'', ''AC'', ''2C'',
      ''3C'', ''4C'', ''5C'', ''6C'', ''7C'', ''8C'', ''9C'', ''TC'', ''JC'',
      ''QC'', ''KC'', ''AS'', ''2S'', ''3S'', ''4S'', ''5S'', ''6S'', ''7S'',
      ''8S'', ''9S'', ''TS'', ''AH'', ''TH'', ''4H'', ''8H'']"
  by code_simp

text \<open>
  Claim C8. \<^verbatim>\<open>DealCardsToPlayers\<close> on a reachable store, with the seated players listed
  without repetition and memory for a slice of two strings. With no player it fails with
  \<open>NoPlayers\<close> and changes nothing, the random source included. Otherwise the deck it stores
  is \<open>deck\<close>, the result of \<^verbatim>\<open>ShuffleDeck\<close> on the 52 cards of \<^verbatim>\<open>CreateDeck\<close> with the
  dealer's random source, which is left as the shuffle leaves it; \<open>deck\<close> is a permutation of
  the 52 cards. With one to 26 players the call succeeds: the stored deck is \<open>deck\<close> less its
  last \<open>2 * n\<close> cards, whatever deck was stored before, so \<open>52 - 2 * n\<close> cards remain;
  player \<open>i\<close> holds the two cards at positions \<open>2 * i\<close> and \<open>2 * i + 1\<close> from the end of
  \<open>deck\<close>; and the cards dealt are pairwise distinct, so no two players share one. With
  more than 26 players a draw comes back short and the call fails with \<open>DeckExhausted\<close>.
\<close>

theorem DealCardsToPlayers_contract:
  assumes "faults s = []" and "distinct (set_at s (RoomPlayers clubID roomID))"
    and "32 \<le> avail"
  shows
    "(let playerIDs = set_at s (RoomPlayers clubID roomID);
          deck = fst (ShuffleDeck g CreateDeck);
          res = DealCardsToPlayers avail clubID roomID g s;
          s' = snd (snd res)
      in mset deck = mset CreateDeck \<and> length deck = 52 \<and> distinct deck
       \<and> (playerIDs = [] \<longrightarrow> res = (Inl NoPlayers, g, s))
       \<and> (playerIDs \<noteq> [] \<longrightarrow> fst (snd res) = snd (ShuffleDeck g CreateDeck))
       \<and> (playerIDs \<noteq> [] \<and> length playerIDs \<le> 26 \<longrightarrow>
            fst res = Inr ()
          \<and> list_at s' (RoomDeck clubID roomID) = take (52 - 2 * length playerIDs) deck
          \<and> length (list_at s' (RoomDeck clubID roomID)) = 52 - 2 * length playerIDs
          \<and> (\<forall>i<length playerIDs.
               map_of (hash_at s' (PlayerInfo clubID roomID (playerIDs ! i))) ''cards'' =
                 Some (json_cards [rev deck ! (2 * i), rev deck ! (2 * i + 1)]))
          \<and> distinct (take (2 * length playerIDs) (rev deck)))
       \<and> (26 < length playerIDs \<longrightarrow> fst res = Inl DeckExhausted))"
proof -
  let ?ps = "set_at s (RoomPlayers clubID roomID)"
  let ?deck = "fst (ShuffleDeck g CreateDeck)"
  let ?s2 = "snd (SaveDeckToRedis clubID roomID ?deck s)"
  let ?res = "DealCardsToPlayers avail clubID roomID g s"
  note D = shuffled_deck_facts [of g]
  have ne: "?deck \<noteq> []" using D(2) by auto
  note S = SaveDeckToRedis_ok [OF assms(1) ne, of clubID roomID]
  note U = DealCardsToPlayers_unfold [OF assms(1), of clubID roomID avail g]
  have n2: "[] \<notin> set (list_at ?s2 (RoomDeck clubID roomID))" using S(3) D(4) by simp
  have empty: "?res = (Inl NoPlayers, g, s)" if "?ps = []"
    using that assms(1) by (simp add: DealCardsToPlayers_def GetPlayerIDs_ok)
  have gen: "fst (snd ?res) = snd (ShuffleDeck g CreateDeck)" if "?ps \<noteq> []"
    using U [OF that] by (simp split: prod.splits sum.splits)
  have ok: "fst ?res = Inr ()
          \<and> list_at (snd (snd ?res)) (RoomDeck clubID roomID) = take (52 - 2 * length ?ps) ?deck
          \<and> length (list_at (snd (snd ?res)) (RoomDeck clubID roomID)) = 52 - 2 * length ?ps
          \<and> (\<forall>i<length ?ps.
               map_of (hash_at (snd (snd ?res)) (PlayerInfo clubID roomID (?ps ! i))) ''cards'' =
                 Some (json_cards [rev ?deck ! (2 * i), rev ?deck ! (2 * i + 1)]))
          \<and> distinct (take (2 * length ?ps) (rev ?deck))"
    if "?ps \<noteq> []" "length ?ps \<le> 26"
  proof -
    have l: "2 * length ?ps \<le> length (list_at ?s2 (RoomDeck clubID roomID))"
      using that S(3) D(2) by simp
    note L = deal_loop_ok [OF assms(3) S(2) n2 assms(2) l, unfolded S(3) D(2)]
    obtain s3 where dl: "deal_loop avail clubID roomID ?ps ?s2 = (Inr (), s3)"
      using L by (cases "deal_loop avail clubID roomID ?ps ?s2") auto
    have r: "?res = (Inr (), snd (ShuffleDeck g CreateDeck), snd (GetDeckSize clubID roomID s3))"
      using U [OF that(1)] dl by simp
    have "distinct (take (2 * length ?ps) (rev ?deck))" using D(3) by simp
    with L dl show ?thesis unfolding r by (simp add: GetDeckSize_frame D(2))
  qed
  have exhausted: "fst ?res = Inl DeckExhausted" if "26 < length ?ps"
  proof -
    have ne': "?ps \<noteq> []" using that by auto
    have l: "length (list_at ?s2 (RoomDeck clubID roomID)) < 2 * length ?ps"
      using that S(3) D(2) by simp
    note E = deal_loop_exhausted [OF assms(3) S(2) n2 l]
    obtain s3 where dl: "deal_loop avail clubID roomID ?ps ?s2 = (Inl DeckExhausted, s3)"
      using E by (cases "deal_loop avail clubID roomID ?ps ?s2") auto
    show ?thesis
      using U [OF ne'] dl by simp
  qed
  show ?thesis
    unfolding Let_def using D(1,2,3) empty gen ok exhausted by blast
qed

theorem DealCardsToPlayers_contract_witness:
  "faults three_players = []
   \<and> distinct (set_at three_players (RoomPlayers ''1'' ''3''))
   \<and> (32::int) \<le> 1024
   \<and> set_at three_players (RoomPlayers ''1'' ''3'') = [''u1'', ''u2'', ''u3'']
   \<and> fst (DealCardsToPlayers 1024 ''1'' ''3'' [7, 3, 9] three_players) = Inr ()
   \<and> length (list_at (snd (snd (DealCardsToPlayers 1024 ''1'' ''3'' [7, 3, 9] three_players)))
        (RoomDeck ''1'' ''3'')) = 46
   \<and> list_at (snd (snd (DealCardsToPlayers 1024 ''1'' ''3'' [7, 3, 9] three_players)))
        (RoomDeck ''1'' ''3'') = take 46 (fst (ShuffleDeck [7, 3, 9] CreateDeck))
   \<and> map_of (hash_at (snd (snd (DealCardsToPlayers 1024 ''1'' ''3'' [7, 3, 9] three_players)))
        (PlayerInfo ''1'' ''3'' ''u1'')) ''cards'' = Some (json_cards [''8H'', ''4H''])
   \<and> map_of (hash_at (snd (snd (DealCardsToPlayers 1024 ''1'' ''3'' [7, 3, 9] three_players)))
        (PlayerInfo ''1'' ''3'' ''u2'')) ''cards'' = Some (json_cards [''TH'', ''AH''])
   \<and> map_of (hash_at (snd (snd (DealCardsToPlayers 1024 ''1'' ''3'' [7, 3, 9] three_players)))
        (PlayerInfo ''1'' ''3'' ''u3'')) ''cards'' = Some (json_cards [''TS'', ''9S''])
   \<and> DealCardsToPlayers 1024 ''1'' ''3'' [7, 3, 9] empty_store
       = (Inl NoPlayers, [7, 3, 9], empty_store)"
proof -
  let ?res = "DealCardsToPlayers 1024 ''1'' ''3'' [7, 3, 9] three_players"
  have ps: "set_at three_players (RoomPlayers ''1'' ''3'') = [''u1'', ''u2'', ''u3'']"
    and f: "faults three_players = []"
    by (simp_all add: three_players_def empty_store_def RoomPlayers_def)
  have d: "distinct (set_at three_players (RoomPlayers ''1'' ''3''))" by (simp add: ps)
  note T = DealCardsToPlayers_contract [OF f d, of 1024 "[7, 3, 9]", unfolded Let_def ps]
  have cards: "\<forall>i<3. map_of (hash_at (snd (snd ?res)) (PlayerInfo ''1'' ''3''
        ([''u1'', ''u2'', ''u3''] ! i))) ''cards'' =
      Some (json_cards [rev (fst (ShuffleDeck [7, 3, 9] CreateDeck)) ! (2 * i),
                        rev (fst (ShuffleDeck [7, 3, 9] CreateDeck)) ! (2 * i + 1)])"
    using T by simp
  have c0: "map_of (hash_at (snd (snd ?res)) (PlayerInfo ''1'' ''3'' ''u1'')) ''cards'' =
      Some (json_cards [''8H'', ''4H''])"
    using cards [rule_format, of 0] by (simp add: shuffle_example)
  have c1: "map_of (hash_at (snd (snd ?res)) (PlayerInfo ''1'' ''3'' ''u2'')) ''cards'' =
      Some (json_cards [''TH'', ''AH''])"
    using cards [rule_format, of 1] by (simp add: shuffle_example)
  have c2: "map_of (hash_at (snd (snd ?res)) (PlayerInfo ''1'' ''3'' ''u3'')) ''cards'' =
      Some (json_cards [''TS'', ''9S''])"
    using cards [rule_format, of 2] by (simp add: shuffle_example)
  have e: "DealCardsToPlayers 1024 ''1'' ''3'' [7, 3, 9] empty_store
       = (Inl NoPlayers, [7, 3, 9], empty_store)"
    using DealCardsToPlayers_contract [of empty_store "''1''" "''3''" 1024 "[7, 3, 9]"]
    by (simp add: empty_store_def Let_def)
  from T f d ps c0 c1 c2 e show ?thesis by simp
qed

section \<open>The stop tick and the player records\<close>

text \<open>
  Claim C3. Scenario B: the room is in phase \<open>flop\<close> and one player is left, who holds a
  bet of 50, two cards, a last action and the dealer flag. One check of the monitor invokes
  its stop transition and the game record is reset (phase \<open>waiting\<close>, empty game id, no
  community cards, pot and current bet \<open>0\<close>), but the player's record is exactly what it
  was: the monitor's \<^verbatim>\<open>handleGameStop\<close> resets no player. \<^verbatim>\<open>GameStopHandler.Handle\<close>, from
  which it was taken, resets the player on the same store.
\<close>

theorem monitor_stop_keeps_player_records:
  "(let res = checkRoom config0 now0 ''1'' ''3'' scenario_B;
        game = hash_at (snd res) (GameState ''1'' ''3'');
        player = hash_at (snd res) (PlayerInfo ''1'' ''3'' ''u1'');
        player_after_Handle =
          hash_at (snd (Handle now0 ''1'' ''3'' ''flop'' ''insufficient_players'' scenario_B))
            (PlayerInfo ''1'' ''3'' ''u1'')
    in set_at scenario_B (RoomPlayers ''1'' ''3'') = [''u1'']
     \<and> fst res = Some (StopGame ''flop'' ''insufficient_players'')
     \<and> field game ''phase'' = ''waiting'' \<and> field game ''game_id'' = []
     \<and> field game ''community_cards'' = ''[]''
     \<and> field game ''pot'' = ''0'' \<and> field game ''current_bet'' = ''0''
     \<and> player = hash_at scenario_B (PlayerInfo ''1'' ''3'' ''u1'')
     \<and> field player ''status'' = ''active'' \<and> field player ''bet'' = ''50''
     \<and> field player ''cards'' = json_cards [''AH'', ''KD'']
     \<and> field player ''last_action'' = ''call'' \<and> field player ''is_dealer'' = ''1''
     \<and> field player_after_Handle ''status'' = ''waiting''
     \<and> field player_after_Handle ''bet'' = ''0''
     \<and> field player_after_Handle ''cards'' = ''[]''
     \<and> field player_after_Handle ''last_action'' = []
     \<and> field player_after_Handle ''is_dealer'' = ''0'')"
  by (simp add: scenario_defs key_defs monitor_defs handler_defs Exec_no_faults Let_def
      json_cards_def)

end
